theory Spec2Isabelle
  imports Complex_Main
begin

section \<open>Python primitives used by the programs\<close>

text \<open>
  A string is a list of characters, and a character is a Unicode code point below 256
  (ASCII and Latin-1); text with other code points is outside the model. The tables
  below are those of Python for these code points.
\<close>

text \<open>\<^verbatim>\<open>c.isspace()\<close>: the white space that \<^verbatim>\<open>strip()\<close> removes.\<close>

definition isspace :: "char \<Rightarrow> bool" where
  "isspace c = (c \<in> set [CHR 0x20, CHR 0x09, CHR 0x0A, CHR 0x0B, CHR 0x0C, CHR 0x0D,
                          CHR 0x1C, CHR 0x1D, CHR 0x1E, CHR 0x1F, CHR 0x85, CHR 0xA0])"

text \<open>
  The white space that \<^verbatim>\<open>int()\<close> skips around a numeral: the six ASCII blanks and the two
  Latin-1 spaces, but not the separators \<open>0x1C\<close> to \<open>0x1F\<close>.
\<close>

definition int_space :: "char \<Rightarrow> bool" where
  "int_space c = (c \<in> set [CHR 0x20, CHR 0x09, CHR 0x0A, CHR 0x0B, CHR 0x0C, CHR 0x0D,
                            CHR 0x85, CHR 0xA0])"

text \<open>\<^verbatim>\<open>s.strip()\<close>: leading and trailing whitespace removed.\<close>

definition strip :: "string \<Rightarrow> string" where
  "strip s = rev (dropWhile isspace (rev (dropWhile isspace s)))"

text \<open>
  The lower case of a character: \<open>A\<close> to \<open>Z\<close>, and the Latin-1 capitals \<open>0xC0\<close> to \<open>0xDE\<close>
  without the multiplication sign \<open>0xD7\<close>, move up by 32.
\<close>

definition lower_char :: "char \<Rightarrow> char" where
  "lower_char c =
     (case map_of (zip ''ABCDEFGHIJKLMNOPQRSTUVWXYZ'' ''abcdefghijklmnopqrstuvwxyz'') c of
        Some d \<Rightarrow> d
      | None \<Rightarrow>
          (let n = (of_char c :: nat)
           in if 192 \<le> n \<and> n \<le> 222 \<and> n \<noteq> 215 then char_of (n + 32) else c))"

text \<open>\<^verbatim>\<open>s.lower()\<close>\<close>

definition lower :: "string \<Rightarrow> string" where
  "lower s = map lower_char s"

fun startswith :: "string \<Rightarrow> string \<Rightarrow> bool" where
  "startswith s [] = True"
| "startswith [] (t # ts) = False"
| "startswith (c # cs) (t # ts) = (c = t \<and> startswith cs ts)"

text \<open>\<^verbatim>\<open>t in s\<close> on strings: \<open>t\<close> occurs in \<open>s\<close> as a contiguous substring.\<close>

fun str_in :: "string \<Rightarrow> string \<Rightarrow> bool" where
  "str_in t [] = (t = [])"
| "str_in t (c # cs) = (startswith (c # cs) t \<or> str_in t cs)"

text \<open>\<^verbatim>\<open>s.split(sep)\<close> for a one-character separator; the result is never empty.\<close>

fun split :: "char \<Rightarrow> string \<Rightarrow> string list" where
  "split sep [] = [[]]"
| "split sep (c # cs) =
     (if c = sep then [] # split sep cs
      else (case split sep cs of [] \<Rightarrow> [[c]] | w # ws \<Rightarrow> (c # w) # ws))"

text \<open>
  What \<^verbatim>\<open>open(path, 'r')\<close> makes of the characters of a file: a carriage return followed
  by a newline, and a carriage return alone, are read as one newline.
\<close>

fun universal_newlines :: "string \<Rightarrow> string" where
  "universal_newlines [] = []"
| "universal_newlines [c] = (if c = CHR 0x0D then [CHR 0x0A] else [c])"
| "universal_newlines (c # d # cs) =
     (if c = CHR 0x0D then
        (if d = CHR 0x0A then CHR 0x0A # universal_newlines cs
         else CHR 0x0A # universal_newlines (d # cs))
      else c # universal_newlines (d # cs))"

text \<open>
  \<^verbatim>\<open>f.readlines()\<close> on the text so read: the text is cut after every newline and every
  line keeps its newline; a last line without newline is returned as it is.
\<close>

fun readlines :: "string \<Rightarrow> string list" where
  "readlines [] = []"
| "readlines (c # cs) =
     (if c = CHR 0x0A then [c] # readlines cs
      else (case readlines cs of [] \<Rightarrow> [[c]] | l # ls \<Rightarrow> (c # l) # ls))"

text \<open>The decimal digits \<open>0\<close> to \<open>9\<close>, the only digits \<^verbatim>\<open>int()\<close> reads below code point 256.\<close>

definition isdecimal :: "char \<Rightarrow> bool" where
  "isdecimal c = (48 \<le> (of_char c :: nat) \<and> (of_char c :: nat) \<le> 57)"

text \<open>\<^verbatim>\<open>c.isdigit()\<close>: the decimal digits and the superscripts two, three and one.\<close>

definition isdigit :: "char \<Rightarrow> bool" where
  "isdigit c = (isdecimal c \<or> c \<in> set [CHR 0xB2, CHR 0xB3, CHR 0xB9])"

definition digit_val :: "char \<Rightarrow> nat" where
  "digit_val c = of_char c - 48"

text \<open>
  The digits of a decimal literal as \<^verbatim>\<open>int()\<close> accepts them: at least one digit, single
  underscores allowed between two digits. \<open>None\<close> is the \<^verbatim>\<open>ValueError\<close>.
\<close>

fun parse_digits :: "nat \<Rightarrow> string \<Rightarrow> nat option" where
  "parse_digits acc [] = None"
| "parse_digits acc [c] = (if isdecimal c then Some (acc * 10 + digit_val c) else None)"
| "parse_digits acc (c # d # cs) =
     (if \<not> isdecimal c then None
      else if d = CHR ''_'' then parse_digits (acc * 10 + digit_val c) cs
      else parse_digits (acc * 10 + digit_val c) (d # cs))"

text \<open>
  The longest numeral that \<^verbatim>\<open>int()\<close> reads and \<^verbatim>\<open>str()\<close> prints (the default of
  \<^verbatim>\<open>sys.set_int_max_str_digits\<close>, CPython 3.11 and later); beyond it both raise
  \<^verbatim>\<open>ValueError\<close>.
\<close>

definition MAX_STR_DIGITS :: nat where
  "MAX_STR_DIGITS = 4300"

text \<open>
  The digits after the sign: more than \<open>MAX_STR_DIGITS\<close> digits (leading zeros counted,
  underscores not) are refused.
\<close>

definition parse_numeral :: "string \<Rightarrow> nat option" where
  "parse_numeral ds =
     (if length (filter isdecimal ds) > MAX_STR_DIGITS then None else parse_digits 0 ds)"

text \<open>
  \<^verbatim>\<open>int(s)\<close> on a string: the white space of \<open>int_space\<close> around the numeral is ignored,
  one sign may precede the digits. \<open>None\<close> is the \<^verbatim>\<open>ValueError\<close>.
\<close>

definition py_int :: "string \<Rightarrow> int option" where
  "py_int s =
     (case rev (dropWhile int_space (rev (dropWhile int_space s))) of
        [] \<Rightarrow> None
      | c # cs \<Rightarrow>
          if c = CHR ''-'' then map_option (\<lambda>n. - int n) (parse_numeral cs)
          else if c = CHR ''+'' then map_option int (parse_numeral cs)
          else map_option int (parse_numeral (c # cs)))"

definition digit_char :: "nat \<Rightarrow> char" where
  "digit_char k = ''0123456789'' ! k"

fun nat_digits :: "nat \<Rightarrow> string" where
  "nat_digits n =
     (if n < 10 then [digit_char n] else nat_digits (n div 10) @ [digit_char (n mod 10)])"

declare nat_digits.simps [simp del]

text \<open>
  \<^verbatim>\<open>str(n)\<close> on an integer, which is also how an f-string prints it, for the integers
  that Python prints: \<open>str_ok n\<close> says that \<open>n\<close> has at most \<open>MAX_STR_DIGITS\<close> digits, and
  \<^verbatim>\<open>str(n)\<close> raises \<^verbatim>\<open>ValueError\<close> otherwise.
\<close>

definition str_ok :: "int \<Rightarrow> bool" where
  "str_ok n \<longleftrightarrow> \<bar>n\<bar> < 10 ^ MAX_STR_DIGITS"

definition py_str :: "int \<Rightarrow> string" where
  "py_str n = (if n < 0 then CHR ''-'' # nat_digits (nat (- n)) else nat_digits (nat n))"

text \<open>
  The least positive integer that Python cannot turn into a double: it rounds to
  \<open>2 ^ 1024\<close>. The true division \<^verbatim>\<open>a / b\<close> of two integers rounds the exact quotient once
  and raises \<^verbatim>\<open>OverflowError\<close> when the quotient is that large.
\<close>

definition DBL_OVERFLOW :: int where
  "DBL_OVERFLOW = 2 ^ 1024 - 2 ^ 970"

definition true_div_overflows :: "int \<Rightarrow> int \<Rightarrow> bool" where
  "true_div_overflows a b \<longleftrightarrow> \<bar>a\<bar> \<ge> \<bar>b\<bar> * DBL_OVERFLOW"

text \<open>
  An integer far inside the range in which Python prints and divides without an
  exception.
\<close>

definition small :: "int \<Rightarrow> bool" where
  "small n \<longleftrightarrow> \<bar>n\<bar> < 10 ^ 300"


section \<open>StudentReport.py: the student record\<close>

text \<open>
  The derived attributes are stored in the object and rewritten by
  \<open>recalculate_derived_data\<close>, as in the class. The percentage is the exact quotient; the
  program computes it in double precision. Rounding is monotone and exact at the totals
  64, 80, 96 and 112, whose percentages are the thresholds 40, 50, 60 and 70, and no
  other total comes nearer than \<open>3/8\<close> to an integer threshold, so the double and the
  exact percentage of every integer total fall on the same side of every threshold.
\<close>

definition TOTAL_MAX_MARKS :: int where
  "TOTAL_MAX_MARKS = 160"

text \<open>
  The division of the total by \<open>TOTAL_MAX_MARKS\<close> raises \<^verbatim>\<open>OverflowError\<close> for these
  totals; the assignments of coursework total and total have been made by then.
\<close>

definition percentage_overflows :: "int \<Rightarrow> bool" where
  "percentage_overflows tot \<longleftrightarrow> true_div_overflows tot TOTAL_MAX_MARKS"

record student =
  code :: string
  name :: string
  c1 :: int
  c2 :: int
  c3 :: int
  exam :: int
  coursework_total :: int
  total_score :: int
  overall_percentage :: rat
  grade :: string

definition calculate_grade :: "rat \<Rightarrow> string" where
  "calculate_grade p =
     (if p \<ge> 70 then ''A''
      else if 60 \<le> p \<and> p \<le> 69 then ''B''
      else if 50 \<le> p \<and> p \<le> 59 then ''C''
      else if 40 \<le> p \<and> p \<le> 49 then ''D''
      else ''F'')"

text \<open>
  What \<open>_recalculate_derived_data\<close> assigns when the division of the total does not
  overflow; where it may, the callers test \<open>percentage_overflows\<close> first.
\<close>

definition recalculate_derived_data :: "student \<Rightarrow> student" where
  "recalculate_derived_data s =
     (let cw = c1 s + c2 s + c3 s;
          tot = cw + exam s;
          perc = (of_int tot / of_int TOTAL_MAX_MARKS) * 100
      in s\<lparr>coursework_total := cw, total_score := tot, overall_percentage := perc,
            grade := calculate_grade perc\<rparr>)"

text \<open>
  The object the constructor builds from integers (the add form has parsed them
  already) when the total does not overflow.
\<close>

definition Student :: "string \<Rightarrow> string \<Rightarrow> int \<Rightarrow> int \<Rightarrow> int \<Rightarrow> int \<Rightarrow> student" where
  "Student cd nm a b c e =
     recalculate_derived_data
       \<lparr>code = cd, name = nm, c1 = a, c2 = b, c3 = c, exam = e,
        coursework_total = 0, total_score = 0, overall_percentage = 0, grade = []\<rparr>"

text \<open>
  The constructor called with the strings of a file line: each \<^verbatim>\<open>int(...)\<close> may raise
  \<^verbatim>\<open>ValueError\<close>, in the order c1, c2, c3, exam, and then the division of the total may
  raise \<^verbatim>\<open>OverflowError\<close>. \<open>None\<close> is either exception; \<open>load_data\<close> treats both alike.
\<close>

definition Student_of_strings ::
  "string \<Rightarrow> string \<Rightarrow> string \<Rightarrow> string \<Rightarrow> string \<Rightarrow> string \<Rightarrow> student option" where
  "Student_of_strings cd nm a b c e =
     (case py_int a of None \<Rightarrow> None | Some a' \<Rightarrow>
       (case py_int b of None \<Rightarrow> None | Some b' \<Rightarrow>
         (case py_int c of None \<Rightarrow> None | Some c' \<Rightarrow>
           (case py_int e of None \<Rightarrow> None | Some e' \<Rightarrow>
              if percentage_overflows (a' + b' + c' + e') then None
              else Some (Student cd nm a' b' c' e')))))"

text \<open>
  \<open>to_file_format\<close> for a student whose four marks Python prints (\<open>printable\<close>); for
  another one the f-string raises \<^verbatim>\<open>ValueError\<close>.
\<close>

definition printable :: "student \<Rightarrow> bool" where
  "printable s \<longleftrightarrow> str_ok (c1 s) \<and> str_ok (c2 s) \<and> str_ok (c3 s) \<and> str_ok (exam s)"

definition to_file_format :: "student \<Rightarrow> string" where
  "to_file_format s =
     code s @ '','' @ name s @ '','' @ py_str (c1 s) @ '','' @ py_str (c2 s) @ '','' @
     py_str (c3 s) @ '','' @ py_str (exam s)"


section \<open>StudentReport.py: the data manager\<close>

text \<open>
  The file \<^verbatim>\<open>studentMarks.txt\<close> as the program meets it: absent, present but not
  readable, or present with some text. The text is the characters of the file, with a
  newline for each line end that the program writes (on a platform whose line end is
  carriage return and newline the file holds both, and reading gives the newline back).
\<close>

datatype disk = Absent | Unreadable | Text string

record data_manager =
  students :: "student list"
  class_size :: int

text \<open>\<^verbatim>\<open>DataManager.__init__\<close> before it calls \<open>load_data\<close>.\<close>

definition DataManager_new :: data_manager where
  "DataManager_new = \<lparr>students = [], class_size = 0\<rparr>"

text \<open>
  The loop of \<open>load_data\<close> over the lines after the first. A line that does not have six
  fields is skipped; a score field that \<^verbatim>\<open>int()\<close> rejects raises out of the loop, which
  is the result \<open>False\<close> with the students appended so far.
\<close>

fun load_lines :: "string list \<Rightarrow> student list \<Rightarrow> student list \<times> bool" where
  "load_lines [] acc = (acc, True)"
| "load_lines (line # rest) acc =
     (let parts = split CHR '','' (strip line)
      in if length parts = 6 then
           (case Student_of_strings (parts ! 0) (parts ! 1) (parts ! 2) (parts ! 3)
                   (parts ! 4) (parts ! 5) of
              None \<Rightarrow> (acc, False)
            | Some s \<Rightarrow> load_lines rest (acc @ [s]))
         else load_lines rest acc)"

text \<open>
  \<open>load_data\<close> returns the manager and whether the error box was shown. An absent file is
  passed over in silence; any other exception is reported and leaves what had been
  assigned before it.
\<close>

definition load_data :: "disk \<Rightarrow> data_manager \<Rightarrow> data_manager \<times> bool" where
  "load_data d dm =
     (let dm0 = dm\<lparr>students := []\<rparr>
      in case d of
           Absent \<Rightarrow> (dm0, False)
         | Unreadable \<Rightarrow> (dm0, True)
         | Text t \<Rightarrow>
             (case readlines (universal_newlines t) of
                [] \<Rightarrow> (dm0, False)
              | first # rest \<Rightarrow>
                  (case py_int (strip first) of
                     None \<Rightarrow> (dm0, True)
                   | Some n \<Rightarrow>
                       (case load_lines rest [] of
                          (ss, True) \<Rightarrow>
                            (dm0\<lparr>students := ss, class_size := int (length ss)\<rparr>, False)
                        | (ss, False) \<Rightarrow>
                            (dm0\<lparr>students := ss, class_size := n\<rparr>, True)))))"

definition output_lines :: "data_manager \<Rightarrow> string list" where
  "output_lines dm =
     (py_str (class_size dm) @ [CHR 0x0A]) #
     map (\<lambda>s. to_file_format s @ [CHR 0x0A]) (students dm)"

text \<open>
  \<open>save_data\<close>: the flag \<open>writable\<close> says whether the file can be opened for writing; a
  file that cannot be opened is left as it was (a write that fails after the file has
  been opened is not modelled). The class size is assigned before anything can fail, so
  it is assigned on failure too. A mark that Python does not print raises
  \<^verbatim>\<open>ValueError\<close> while the lines are built, before the file is opened; every exception
  is caught and gives the result \<open>False\<close>.
\<close>

definition save_data :: "bool \<Rightarrow> data_manager \<Rightarrow> disk \<Rightarrow> bool \<times> data_manager \<times> disk" where
  "save_data writable dm d =
     (let dm' = dm\<lparr>class_size := int (length (students dm))\<rparr>
      in if list_all printable (students dm') \<and> writable
         then (True, dm', Text (concat (output_lines dm')))
         else (False, dm', d))"

text \<open>
  \<open>get_summary\<close>; \<open>None\<close> is the exception of the division: \<^verbatim>\<open>ZeroDivisionError\<close> for a
  zero class size, \<^verbatim>\<open>OverflowError\<close> for a class size too large for a double. The sum
  and the average are exact where the program adds and divides doubles.
\<close>

definition get_summary :: "data_manager \<Rightarrow> (int \<times> rat) option" where
  "get_summary dm =
     (if students dm = [] then Some (0, 0)
      else let total_percentage = sum_list (map overall_percentage (students dm))
           in if class_size dm = 0 \<or> \<bar>class_size dm\<bar> \<ge> DBL_OVERFLOW then None
              else Some (class_size dm, total_percentage / of_int (class_size dm)))"

definition find_student :: "string \<Rightarrow> data_manager \<Rightarrow> student list" where
  "find_student search_term dm =
     (let t = lower (strip search_term)
      in filter (\<lambda>s. code s = t \<or> str_in t (lower (name s))) (students dm))"


section \<open>StudentReport.py: add, delete, update\<close>

text \<open>
  \<open>_handle_submission\<close>: append, save, and on a failed save \<^verbatim>\<open>pop()\<close> the last student.
  When the constructor raises \<^verbatim>\<open>OverflowError\<close> nothing has been changed yet.
\<close>

definition handle_submission ::
  "bool \<Rightarrow> string \<Rightarrow> string \<Rightarrow> int \<Rightarrow> int \<Rightarrow> int \<Rightarrow> int \<Rightarrow> data_manager \<Rightarrow> disk
     \<Rightarrow> data_manager \<times> disk" where
  "handle_submission writable cd nm a b c e dm d =
     (if percentage_overflows (a + b + c + e) then (dm, d)
      else
        (let new_student = Student cd nm a b c e;
             dm1 = dm\<lparr>students := students dm @ [new_student]\<rparr>
         in case save_data writable dm1 d of
              (True, dm2, d2) \<Rightarrow> (dm2, d2)
            | (False, dm2, d2) \<Rightarrow> (dm2\<lparr>students := butlast (students dm2)\<rparr>, d2)))"

text \<open>
  \<open>_submit_inline_add\<close>: the four marks are parsed first (a \<^verbatim>\<open>ValueError\<close> shows a box and
  changes nothing), then the code must be four digits and the name not empty.
\<close>

definition submit_inline_add ::
  "bool \<Rightarrow> string \<Rightarrow> string \<Rightarrow> string \<Rightarrow> string \<Rightarrow> string \<Rightarrow> string \<Rightarrow> data_manager \<Rightarrow> disk
     \<Rightarrow> data_manager \<times> disk" where
  "submit_inline_add writable cd nm a b c e dm d =
     (case py_int a of None \<Rightarrow> (dm, d) | Some a' \<Rightarrow>
       (case py_int b of None \<Rightarrow> (dm, d) | Some b' \<Rightarrow>
         (case py_int c of None \<Rightarrow> (dm, d) | Some c' \<Rightarrow>
           (case py_int e of None \<Rightarrow> (dm, d) | Some e' \<Rightarrow>
              if length cd \<noteq> 4 \<or> \<not> list_all isdigit cd \<or> nm = [] then (dm, d)
              else handle_submission writable cd nm a' b' c' e' dm d))))"

text \<open>
  \<open>_submit_inline_delete\<close>: \<open>confirmed\<close> is the answer to the yes/no box. The first match is
  removed from the list and the list saved; the result of the save only decides which
  messages follow.
\<close>

definition submit_inline_delete ::
  "bool \<Rightarrow> bool \<Rightarrow> string \<Rightarrow> data_manager \<Rightarrow> disk \<Rightarrow> data_manager \<times> disk" where
  "submit_inline_delete writable confirmed search_term dm d =
     (if search_term = [] then (dm, d)
      else case find_student search_term dm of
             [] \<Rightarrow> (dm, d)
           | student_to_delete # _ \<Rightarrow>
               if confirmed then
                 (let dm1 = dm\<lparr>students := remove1 student_to_delete (students dm)\<rparr>
                  in case save_data writable dm1 d of (_, dm2, d2) \<Rightarrow> (dm2, d2))
               else (dm, d))"

text \<open>
  The assignments of \<open>_submit_inline_update\<close> to the matched student, in the order of the
  source: a blank field is skipped, and a field that \<^verbatim>\<open>int()\<close> rejects raises after the
  earlier fields have been assigned (\<open>Inl\<close> carries the student as it is then). The
  recalculation at the end raises \<^verbatim>\<open>OverflowError\<close> for a total that overflows, after it
  has assigned the coursework total and the total.
\<close>

definition update_fields ::
  "string \<Rightarrow> string \<Rightarrow> string \<Rightarrow> string \<Rightarrow> string \<Rightarrow> student \<Rightarrow> student + student" where
  "update_fields new_name a b c e s =
     (let s0 = (if new_name \<noteq> [] then s\<lparr>name := new_name\<rparr> else s) in
      case (if a \<noteq> [] then map_option (\<lambda>v. s0\<lparr>c1 := v\<rparr>) (py_int a) else Some s0) of
        None \<Rightarrow> Inl s0
      | Some s1 \<Rightarrow>
     (case (if b \<noteq> [] then map_option (\<lambda>v. s1\<lparr>c2 := v\<rparr>) (py_int b) else Some s1) of
        None \<Rightarrow> Inl s1
      | Some s2 \<Rightarrow>
     (case (if c \<noteq> [] then map_option (\<lambda>v. s2\<lparr>c3 := v\<rparr>) (py_int c) else Some s2) of
        None \<Rightarrow> Inl s2
      | Some s3 \<Rightarrow>
     (case (if e \<noteq> [] then map_option (\<lambda>v. s3\<lparr>exam := v\<rparr>) (py_int e) else Some s3) of
        None \<Rightarrow> Inl s3
      | Some s4 \<Rightarrow>
          if percentage_overflows (c1 s4 + c2 s4 + c3 s4 + exam s4)
          then Inl (s4\<lparr>coursework_total := c1 s4 + c2 s4 + c3 s4,
                       total_score := c1 s4 + c2 s4 + c3 s4 + exam s4\<rparr>)
          else Inr (recalculate_derived_data s4)))))"

text \<open>The list with its first element that satisfies \<open>P\<close> replaced (the object is shared).\<close>

fun replace_first :: "('a \<Rightarrow> bool) \<Rightarrow> 'a \<Rightarrow> 'a list \<Rightarrow> 'a list" where
  "replace_first P y [] = []"
| "replace_first P y (x # xs) = (if P x then y # xs else x # replace_first P y xs)"

definition submit_inline_update ::
  "bool \<Rightarrow> string \<Rightarrow> string \<Rightarrow> string \<Rightarrow> string \<Rightarrow> string \<Rightarrow> string \<Rightarrow> data_manager \<Rightarrow> disk
     \<Rightarrow> data_manager \<times> disk" where
  "submit_inline_update writable search_term new_name a b c e dm d =
     (if search_term = [] then (dm, d)
      else case find_student search_term dm of
             [] \<Rightarrow> (dm, d)
           | s # _ \<Rightarrow>
               (let t = lower (strip search_term);
                    hit = (\<lambda>x. code x = t \<or> str_in t (lower (name x)))
                in case update_fields new_name a b c e s of
                     Inl s' \<Rightarrow> (dm\<lparr>students := replace_first hit s' (students dm)\<rparr>, d)
                   | Inr s' \<Rightarrow>
                       (let dm1 = dm\<lparr>students := replace_first hit s' (students dm)\<rparr>
                        in case save_data writable dm1 d of (_, dm2, d2) \<Rightarrow> (dm2, d2))))"


section \<open>quiz.py: the quiz logic and its controller\<close>

datatype tier = Beginner | Intermediate | Advanced

fun DIFFICULTY_SETTINGS :: "tier \<Rightarrow> int \<times> int" where
  "DIFFICULTY_SETTINGS Beginner = (1, 9)"
| "DIFFICULTY_SETTINGS Intermediate = (10, 99)"
| "DIFFICULTY_SETTINGS Advanced = (1000, 9999)"

definition MAX_LIVES :: int where
  "MAX_LIVES = 5"

datatype frame = MainMenuFrame | InstructionsFrame | SettingsFrame | LevelSelectFrame | QuizFrame

text \<open>
  The attributes of \<open>MathQuizLogic\<close>, and of its controller the frame on top and the result
  boxes shown so far (message, final score, rank). Sound and the wall clock are left out.

  The functions of this section and the next give the result and the state of a call
  that raises no exception. Beyond the exceptions modelled, Python raises in them only
  for integers out of the range of \<open>small\<close>: an f-string that prints a score, an operand
  or an answer of more than \<open>MAX_STR_DIGITS\<close> digits, and the division in
  \<open>calculate_rank\<close> of a score that overflows a double. The theorems about them assume
  \<open>small\<close> scores, operands and answers.
\<close>

record quiz =
  score :: int
  questions_attempted :: int
  current_answer :: "int option"
  attempts_remaining :: int
  lives :: int
  difficulty :: "tier option"
  max_questions :: int
  top_frame :: frame
  results_shown :: "(string \<times> int \<times> string) list"

definition MathQuizLogic_new :: quiz where
  "MathQuizLogic_new =
     \<lparr>score = 0, questions_attempted = 0, current_answer = None, attempts_remaining = 2,
      lives = MAX_LIVES, difficulty = None, max_questions = 10,
      top_frame = MainMenuFrame, results_shown = []\<rparr>"

text \<open>
  \<open>generate_problem\<close>: \<open>r1\<close>, \<open>r2\<close> and \<open>operation\<close> are what the three calls of the random
  module return, in this order. \<open>None\<close> is the \<^verbatim>\<open>KeyError\<close> of an unset difficulty.
\<close>

definition generate_problem :: "int \<Rightarrow> int \<Rightarrow> char \<Rightarrow> quiz \<Rightarrow> (string \<times> quiz) option" where
  "generate_problem r1 r2 operation q =
     (case difficulty q of
        None \<Rightarrow> None
      | Some level \<Rightarrow>
          (let (num1, num2) = (if operation = CHR ''-'' \<and> r1 < r2 then (r2, r1) else (r1, r2));
               ans = (if operation = CHR ''+'' then num1 + num2 else num1 - num2)
           in Some (py_str num1 @ '' '' @ [operation] @ '' '' @ py_str num2,
                    q\<lparr>current_answer := Some ans, attempts_remaining := 2\<rparr>)))"

text \<open>
  \<open>calculate_rank\<close> with the exact percentage where the program rounds to doubles. With
  \<open>max_questions\<close> at 10, its only value in the program, the double and the exact
  percentage of every \<open>small\<close> score fall on the same side of every threshold: rounding
  is monotone and gives exactly 60, 70, 80 and 90 at these scores and less at the
  scores just below.
\<close>

definition calculate_rank :: "quiz \<Rightarrow> string" where
  "calculate_rank q =
     (let score_percent =
            (if max_questions q \<noteq> 0
             then (of_int (score q) / of_int (max_questions q * 10)) * 100 else (0::rat))
      in if score_percent \<ge> 90 then ''A+ (Outstanding!)''
         else if score_percent \<ge> 80 then ''A (Excellent!)''
         else if score_percent \<ge> 70 then ''B (Very Good)''
         else if score_percent \<ge> 60 then ''C (Good)''
         else ''F (Try Again)'')"

text \<open>\<open>QuizController.show_results\<close>\<close>

definition show_results :: "string \<Rightarrow> quiz \<Rightarrow> quiz" where
  "show_results message q =
     (let final_rank = calculate_rank q;
          total_score = score q
      in q\<lparr>lives := MAX_LIVES, questions_attempted := 0,
            results_shown := results_shown q @ [(message, total_score, final_rank)],
            top_frame := MainMenuFrame\<rparr>)"

definition answer_text :: "int option \<Rightarrow> string" where
  "answer_text a = (case a of None \<Rightarrow> ''None'' | Some n \<Rightarrow> py_str n)"

text \<open>\<open>MathQuizLogic.check_answer\<close>: the feedback, the solved flag, and the state after.\<close>

definition check_answer :: "string \<Rightarrow> quiz \<Rightarrow> (string \<times> bool) \<times> quiz" where
  "check_answer user_input q =
     (case py_int user_input of
        None \<Rightarrow> ((''Invalid Input'', False), q)
      | Some user_answer \<Rightarrow>
          if Some user_answer = current_answer q then
            (let points = (if attempts_remaining q = 2 then 10 else 5)
             in ((''Correct! (+'' @ py_str points @ '' points)'', True),
                 q\<lparr>score := score q + points,
                   questions_attempted := questions_attempted q + 1\<rparr>))
          else
            (let q1 = q\<lparr>attempts_remaining := attempts_remaining q - 1\<rparr>
             in if attempts_remaining q1 = 0 then
                  (let q2 = q1\<lparr>lives := lives q1 - 1,
                               questions_attempted := questions_attempted q1 + 1\<rparr>;
                       feedback = ''Wrong! The answer was '' @ answer_text (current_answer q2)
                                    @ ''. You lost a life.''
                   in ((feedback, True),
                       (if lives q2 \<le> 0 then show_results ''Game Over! Out of Lives.'' q2
                        else q2)))
                else ((''Wrong. One more attempt remaining.'', False), q1)))"

text \<open>\<open>QuizFrame.next_question\<close>, with the random values its \<open>generate_problem\<close> would draw.\<close>

definition next_question :: "int \<Rightarrow> int \<Rightarrow> char \<Rightarrow> quiz \<Rightarrow> quiz option" where
  "next_question r1 r2 operation q =
     (if questions_attempted q \<ge> max_questions q
      then Some (show_results ''Quiz Completed Successfully!'' q)
      else map_option snd (generate_problem r1 r2 operation q))"

definition initialize_quiz :: "int \<Rightarrow> int \<Rightarrow> char \<Rightarrow> quiz \<Rightarrow> quiz option" where
  "initialize_quiz r1 r2 operation q =
     next_question r1 r2 operation (q\<lparr>score := 0, questions_attempted := 0, lives := MAX_LIVES\<rparr>)"

text \<open>\<open>QuizController.start_game\<close>\<close>

definition start_game :: "tier \<Rightarrow> int \<Rightarrow> int \<Rightarrow> char \<Rightarrow> quiz \<Rightarrow> quiz option" where
  "start_game level r1 r2 operation q =
     map_option (\<lambda>q'. q'\<lparr>top_frame := QuizFrame\<rparr>)
       (initialize_quiz r1 r2 operation (q\<lparr>difficulty := Some level\<rparr>))"

text \<open>
  \<open>QuizFrame.submit_answer\<close>: the state after, and whether \<open>next_question\<close> has been
  scheduled.
\<close>

definition submit_answer :: "string \<Rightarrow> quiz \<Rightarrow> quiz \<times> bool" where
  "submit_answer entry q =
     (let user_input = strip entry
      in if user_input = [] then (q, False)
         else (case check_answer user_input q of
                 ((feedback, solved), q') \<Rightarrow>
                   if str_in ''Correct'' feedback \<or> str_in ''Wrong!'' feedback then (q', solved)
                   else if str_in ''Invalid Input'' feedback then (q', False)
                   else (q', solved)))"

text \<open>
  The branch of \<open>QuizFrame.update_timer_display\<close> taken when the time is up; it always
  schedules \<open>next_question\<close>.
\<close>

definition timer_expired :: "quiz \<Rightarrow> quiz" where
  "timer_expired q = snd (check_answer ''Timeout'' (q\<lparr>attempts_remaining := 1\<rparr>))"


section \<open>main.py: the quiz that generates its ten questions up front\<close>

fun DIFFICULTY_RANGES :: "tier \<Rightarrow> int \<times> int" where
  "DIFFICULTY_RANGES Beginner = (1, 9)"
| "DIFFICULTY_RANGES Intermediate = (10, 99)"
| "DIFFICULTY_RANGES Advanced = (100, 999)"

definition MAX_QUESTIONS :: int where
  "MAX_QUESTIONS = 10"

definition FIRST_ATTEMPT_POINTS :: int where
  "FIRST_ATTEMPT_POINTS = 10"

definition SECOND_ATTEMPT_POINTS :: int where
  "SECOND_ATTEMPT_POINTS = 5"

record question =
  q_str :: string
  answer :: int
  attempts :: int

datatype page =
  MainMenuPage | InstructionsPage | SettingsPage | DifficultySelectPage | QuizPage | ResultsPage

text \<open>The message boxes of \<open>QuizPage.check_answer\<close>, with the number each one prints.\<close>

datatype box = Invalid_Input_box | Correct_box int | Incorrect_box int

record app =
  app_score :: int
  app_lives :: int
  app_difficulty :: "tier option"
  quiz_data :: "question list"
  question_index :: int
  current_page :: page
  boxes :: "box list"

definition MathsQuizApp_new :: app where
  "MathsQuizApp_new =
     \<lparr>app_score = 0, app_lives = MAX_LIVES, app_difficulty = None, quiz_data = [],
      question_index = 0, current_page = MainMenuPage, boxes = []\<rparr>"

text \<open>
  Three values as the random module draws them for a range: two operands inside the
  range and one of the two operators.
\<close>

definition valid_draw :: "int \<times> int \<Rightarrow> int \<times> int \<times> char \<Rightarrow> bool" where
  "valid_draw bounds r =
     (case bounds of (lo, hi) \<Rightarrow>
        (case r of (n1, n2, op) \<Rightarrow>
           lo \<le> n1 \<and> n1 \<le> hi \<and> lo \<le> n2 \<and> n2 \<le> hi \<and> (op = CHR ''+'' \<or> op = CHR ''-'')))"

text \<open>One question of \<open>start_quiz\<close> from the three random values drawn for it.\<close>

definition make_question :: "int \<times> int \<times> char \<Rightarrow> question" where
  "make_question r =
     (case r of (n1, n2, op) \<Rightarrow>
        \<lparr>q_str = py_str n1 @ '' '' @ [op] @ '' '' @ py_str n2 @ '' ='',
         answer = (if op = CHR ''+'' then n1 + n2 else n1 - n2),
         attempts = 1\<rparr>)"

definition MathsQuizApp_show_results :: "app \<Rightarrow> app" where
  "MathsQuizApp_show_results a = a\<lparr>current_page := ResultsPage\<rparr>"

definition display_problem :: "app \<Rightarrow> app" where
  "display_problem a =
     (if question_index a \<ge> MAX_QUESTIONS \<or> app_lives a \<le> 0 then MathsQuizApp_show_results a
      else a)"

text \<open>
  \<open>DifficultySelectPage.start_quiz\<close>: \<open>rnd i\<close> holds the random values of the \<open>i\<close>-th round of
  the loop. Switching to the quiz page builds it, which displays the first problem.
\<close>

definition start_quiz :: "tier \<Rightarrow> (nat \<Rightarrow> int \<times> int \<times> char) \<Rightarrow> app \<Rightarrow> app" where
  "start_quiz level rnd a =
     display_problem
       (a\<lparr>app_difficulty := Some level, app_score := 0, app_lives := MAX_LIVES,
          question_index := 0,
          quiz_data := map (\<lambda>i. make_question (rnd i)) [0..<nat MAX_QUESTIONS],
          current_page := QuizPage\<rparr>)"

text \<open>
  The position \<^verbatim>\<open>quiz_data[question_index]\<close> reads, Python's negative indices included;
  \<open>None\<close> is the \<^verbatim>\<open>IndexError\<close>.
\<close>

definition question_pos :: "app \<Rightarrow> nat option" where
  "question_pos a =
     (let n = int (length (quiz_data a));
          j = (if question_index a < 0 then n + question_index a else question_index a)
      in if 0 \<le> j \<and> j < n then Some (nat j) else None)"


text \<open>\<open>QuizPage.check_answer\<close> on the text of the entry.\<close>

definition QuizPage_check_answer :: "string \<Rightarrow> app \<Rightarrow> app" where
  "QuizPage_check_answer entry a =
     (case py_int entry of
        None \<Rightarrow> a\<lparr>boxes := boxes a @ [Invalid_Input_box]\<rparr>
      | Some user_ans \<Rightarrow>
          (case question_pos a of
             None \<Rightarrow> a
           | Some i \<Rightarrow>
               (let q = quiz_data a ! i
                in if user_ans = answer q then
                     (let points = (if attempts q = 1 then FIRST_ATTEMPT_POINTS
                                    else SECOND_ATTEMPT_POINTS)
                      in display_problem
                           (a\<lparr>app_score := app_score a + points,
                              boxes := boxes a @ [Correct_box points],
                              question_index := question_index a + 1\<rparr>))
                   else
                     (let q' = q\<lparr>attempts := attempts q + 1\<rparr>;
                          a1 = a\<lparr>quiz_data := (quiz_data a)[i := q']\<rparr>
                      in if attempts q' > 2 then
                           display_problem
                             (a1\<lparr>app_lives := app_lives a1 - 1,
                                 boxes := boxes a1 @ [Incorrect_box (answer q')],
                                 question_index := question_index a1 + 1\<rparr>)
                         else a1))))"

text \<open>\<open>QuizPage.confirm_quit\<close>; \<open>yes\<close> is the answer to the yes/no box.\<close>

definition confirm_quit :: "bool \<Rightarrow> app \<Rightarrow> app" where
  "confirm_quit yes a = (if yes then MathsQuizApp_show_results a else a)"

text \<open>
  What the player can do on the quiz page: submit the entry, or press the quit button
  and answer its box. Switching the page destroys the quiz page and its buttons.
\<close>

datatype event = Submit string | Quit bool

fun step :: "event \<Rightarrow> app \<Rightarrow> app" where
  "step (Submit entry) a = (if current_page a = QuizPage then QuizPage_check_answer entry a else a)"
| "step (Quit yes) a = (if current_page a = QuizPage then confirm_quit yes a else a)"

definition run :: "event list \<Rightarrow> app \<Rightarrow> app" where
  "run es a = fold step es a"


section \<open>Record lines in the form the program writes\<close>

text \<open>
  A row is the content of one record of the roster file: code, name and the four marks.
  \<open>record_line\<close> is the line of six comma-separated fields with the marks in plain
  decimal notation, without the newline.
\<close>

type_synonym row = "string \<times> string \<times> int \<times> int \<times> int \<times> int"

definition record_line :: "row \<Rightarrow> string" where
  "record_line r =
     (case r of (cd, nm, a, b, c, e) \<Rightarrow>
        cd @ '','' @ nm @ '','' @ py_str a @ '','' @ py_str b @ '','' @ py_str c @ '','' @ py_str e)"

definition student_of_row :: "row \<Rightarrow> student" where
  "student_of_row r = (case r of (cd, nm, a, b, c, e) \<Rightarrow> Student cd nm a b c e)"

text \<open>
  A row whose line is read back as it is: code and name hold no comma, no newline and
  no carriage return, the line does not begin with white space (which \<^verbatim>\<open>strip()\<close> would
  remove), every mark has at most \<open>MAX_STR_DIGITS\<close> digits, and the division of the total
  does not overflow.
\<close>

definition canonical_row :: "row \<Rightarrow> bool" where
  "canonical_row r =
     (case r of (cd, nm, a, b, c, e) \<Rightarrow>
        CHR '','' \<notin> set cd \<and> CHR 0x0A \<notin> set cd \<and> CHR 0x0D \<notin> set cd \<and>
        CHR '','' \<notin> set nm \<and> CHR 0x0A \<notin> set nm \<and> CHR 0x0D \<notin> set nm \<and>
        (case cd of [] \<Rightarrow> True | c0 # _ \<Rightarrow> \<not> isspace c0) \<and>
        str_ok a \<and> str_ok b \<and> str_ok c \<and> str_ok e \<and>
        \<not> percentage_overflows (a + b + c + e))"

text \<open>The six raw fields of a student.\<close>

definition row_of_student :: "student \<Rightarrow> row" where
  "row_of_student s = (code s, name s, c1 s, c2 s, c3 s, exam s)"


section \<open>Invariants of a run of main.py\<close>

text \<open>
  On the quiz page there are lives left and questions left; lives and index stay within
  their bounds on the results page too.
\<close>

definition playing :: "app \<Rightarrow> bool" where
  "playing a \<longleftrightarrow>
     (current_page a = QuizPage \<or> current_page a = ResultsPage) \<and>
     0 \<le> app_lives a \<and> 0 \<le> question_index a \<and> question_index a \<le> MAX_QUESTIONS \<and>
     (current_page a = QuizPage \<longrightarrow> 0 < app_lives a \<and> question_index a < MAX_QUESTIONS)"

text \<open>The results page has been reached by the rule: no lives, or all questions done.\<close>

definition by_rule :: "app \<Rightarrow> bool" where
  "by_rule a \<longleftrightarrow>
     (current_page a = ResultsPage \<longrightarrow> app_lives a = 0 \<or> question_index a = MAX_QUESTIONS)"


section \<open>Example data\<close>

text \<open>A posed problem with the answer 12, with five lives and with the last life.\<close>

definition posed_quiz :: quiz where
  "posed_quiz = MathQuizLogic_new\<lparr>current_answer := Some 12, difficulty := Some Beginner\<rparr>"

definition last_life_quiz :: quiz where
  "last_life_quiz = MathQuizLogic_new\<lparr>current_answer := Some 12, lives := 1, questions_attempted := 4\<rparr>"

text \<open>main.py after a start in which every draw is \<open>5 + 7\<close>.\<close>

definition started_app :: app where
  "started_app = start_quiz Beginner (\<lambda>i. (5, 7, CHR ''+'')) MathsQuizApp_new"

text \<open>A roster of two students and the file that holds it.\<close>

definition ann :: student where
  "ann = Student ''1001'' ''Ann'' 10 10 10 50"

definition bob :: student where
  "bob = Student ''1002'' ''Bob'' 6 6 6 30"

definition two_students :: data_manager where
  "two_students = \<lparr>students = [ann, bob], class_size = 2\<rparr>"

definition two_students_file :: disk where
  "two_students_file = Text ''2\<newline>1001,Ann,10,10,10,50\<newline>1002,Bob,6,6,6,30\<newline>''"


section \<open>Evaluation rules and basic facts\<close>

lemma small_str_ok: "small n \<Longrightarrow> str_ok n"
proof -
  assume "small n"
  then have "\<bar>n\<bar> < 10 ^ 300" by (simp only: small_def)
  moreover have "(10::int) ^ 300 \<le> 10 ^ 4300" by (rule power_increasing) simp_all
  ultimately have "\<bar>n\<bar> < 10 ^ 4300" by (rule less_le_trans)
  then show ?thesis by (simp only: str_ok_def MAX_STR_DIGITS_def)
qed

lemma small_sum_no_overflow:
  assumes "small a" and "small b" and "small c" and "small e"
  shows "\<not> percentage_overflows (a + b + c + e)"
proof -
  define K :: int where "K = 10 ^ 300"
  have k: "4 * K \<le> TOTAL_MAX_MARKS * DBL_OVERFLOW"
    by (simp add: K_def TOTAL_MAX_MARKS_def DBL_OVERFLOW_def)
  have "\<bar>a\<bar> < K" "\<bar>b\<bar> < K" "\<bar>c\<bar> < K" "\<bar>e\<bar> < K"
    using assms by (simp_all only: small_def K_def)
  then have "\<bar>a + b + c + e\<bar> < 4 * K" by linarith
  with k have "\<bar>a + b + c + e\<bar> < \<bar>TOTAL_MAX_MARKS\<bar> * DBL_OVERFLOW"
    by (simp add: TOTAL_MAX_MARKS_def)
  then show ?thesis by (simp add: percentage_overflows_def true_div_overflows_def)
qed

lemmas range_eval = percentage_overflows_def true_div_overflows_def DBL_OVERFLOW_def
  printable_def small_str_ok small_def

lemmas py_eval = py_int_def parse_numeral_def MAX_STR_DIGITS_def int_space_def strip_def
  isspace_def isdecimal_def isdigit_def digit_val_def py_str_def digit_char_def
  nat_digits.simps lower_def lower_char_def

lemmas student_eval = Student_def recalculate_derived_data_def calculate_grade_def
  TOTAL_MAX_MARKS_def to_file_format_def Let_def

lemmas quiz_eval = check_answer_def show_results_def calculate_rank_def MathQuizLogic_new_def
  answer_text_def

lemmas app_eval = start_quiz_def display_problem_def MathsQuizApp_show_results_def
  MathsQuizApp_new_def make_question_def MAX_QUESTIONS_def MAX_LIVES_def question_pos_def
  QuizPage_check_answer_def FIRST_ATTEMPT_POINTS_def SECOND_ATTEMPT_POINTS_def confirm_quit_def
  run_def Let_def

lemmas roster_eval = ann_def bob_def two_students_def two_students_file_def load_data_def
  DataManager_new_def Student_of_strings_def find_student_def save_data_def output_lines_def
  handle_submission_def submit_inline_delete_def submit_inline_update_def update_fields_def
  get_summary_def range_eval

lemma grade_is_function_of_raw_scores:
  "grade (recalculate_derived_data s) =
     calculate_grade (of_int (c1 s + c2 s + c3 s + exam s) / of_int TOTAL_MAX_MARKS * 100)"
  by (simp add: recalculate_derived_data_def Let_def)



section \<open>Grades (StudentReport.py)\<close>

text \<open>
  C1. The grade is computed from the four raw scores alone
  (\<open>grade_is_function_of_raw_scores\<close>), but the bands of \<open>_calculate_grade\<close> are closed
  at 69, 59 and 49, so a percentage strictly between two bands falls through to the
  last branch. A student with the marks 20, 20, 20 and 51 has the total 111, the
  percentage 69.375, which lies between 60 and 70, and the grade F.
\<close>

theorem grade_gap_between_bands:
  "overall_percentage (Student ''1001'' ''Ann'' 20 20 20 51) = 69375 / 1000 \<and>
   60 \<le> overall_percentage (Student ''1001'' ''Ann'' 20 20 20 51) \<and>
   overall_percentage (Student ''1001'' ''Ann'' 20 20 20 51) < 70 \<and>
   grade (Student ''1001'' ''Ann'' 20 20 20 51) = ''F''"
  by (simp add: student_eval)


section \<open>Invalid input (quiz.py)\<close>

text \<open>
  C5. When \<^verbatim>\<open>int()\<close> rejects the input, \<open>check_answer\<close> returns the feedback
  \<open>Invalid Input\<close> with the solved flag off and leaves the whole state as it was: score,
  lives, attempts remaining and questions attempted. This holds in every state, also
  with one attempt remaining.
\<close>

theorem check_answer_invalid_input:
  assumes "py_int user_input = None"
  shows "check_answer user_input q = ((''Invalid Input'', False), q)"
  using assms by (simp add: check_answer_def)

theorem check_answer_invalid_input_witness:
  "py_int ''Timeout'' = None \<and>
   check_answer ''Timeout'' (MathQuizLogic_new\<lparr>attempts_remaining := 1\<rparr>) =
     ((''Invalid Input'', False), MathQuizLogic_new\<lparr>attempts_remaining := 1\<rparr>)"
proof -
  have h: "py_int ''Timeout'' = None" by (simp add: py_eval)
  show ?thesis using h check_answer_invalid_input [OF h] by simp
qed

text \<open>
  The handler of the expired timer therefore takes no life and does not count the
  question.
\<close>

lemma timer_expired_keeps_lives:
  "lives (timer_expired q) = lives q \<and>
   questions_attempted (timer_expired q) = questions_attempted q"
  by (simp add: timer_expired_def check_answer_def py_eval)


section \<open>Ranks (quiz.py and main.py)\<close>





section \<open>Searching the roster (StudentReport.py)\<close>

lemma find_student_filter:
  "find_student term dm =
     filter (\<lambda>s. code s = lower (strip term) \<or> str_in (lower (strip term)) (lower (name s)))
       (students dm)"
  by (simp add: find_student_def Let_def)

lemma find_student_code_is_not_substring:
  "find_student ''42'' \<lparr>students = [Student ''0042'' ''Bob'' 1 2 3 4], class_size = 1\<rparr> = []"
  by (simp add: find_student_def py_eval student_eval)

text \<open>
  C8. \<open>find_student\<close> lowers the search term and the name, but compares the code as it is
  stored. The loader accepts any string as a code, so a file may hold the code
  \<open>A001\<close>; the search for \<open>A001\<close> then looks for \<open>a001\<close> and finds nobody, although the
  code equals the term exactly. (The search by name is case-insensitive: \<open>bob\<close> finds
  Bob.)
\<close>

theorem find_student_code_case_sensitive:
  "fst (load_data (Text ''1\<newline>A001,Bob,1,2,3,4\<newline>'') DataManager_new) =
      \<lparr>students = [Student ''A001'' ''Bob'' 1 2 3 4], class_size = 1\<rparr> \<and>
   find_student ''A001'' \<lparr>students = [Student ''A001'' ''Bob'' 1 2 3 4], class_size = 1\<rparr> = [] \<and>
   find_student ''bob'' \<lparr>students = [Student ''A001'' ''Bob'' 1 2 3 4], class_size = 1\<rparr> =
     [Student ''A001'' ''Bob'' 1 2 3 4]"
  by (simp add: load_data_def DataManager_new_def Student_of_strings_def find_student_def
      py_eval student_eval range_eval)


section \<open>Generated problems (quiz.py and main.py)\<close>

lemma generate_problem_answer:
  assumes "difficulty q = Some level"
  shows "\<exists>text q'. generate_problem r1 r2 operation q = Some (text, q') \<and>
           attempts_remaining q' = 2 \<and>
           (operation = CHR ''+'' \<longrightarrow> current_answer q' = Some (r1 + r2)) \<and>
           (operation = CHR ''-'' \<longrightarrow>
              current_answer q' = Some (max r1 r2 - min r1 r2) \<and> 0 \<le> max r1 r2 - min r1 r2)"
  using assms by (auto simp: generate_problem_def Let_def max_def min_def)

lemma make_question_answer:
  "answer (make_question (n1, n2, op)) = (if op = CHR ''+'' then n1 + n2 else n1 - n2) \<and>
   attempts (make_question (n1, n2, op)) = 1"
  by (simp add: make_question_def)

text \<open>
  C2. In both programs the stored answer is the sum or the difference of the two
  operands. Only \<open>generate_problem\<close> of quiz.py swaps the operands of a subtraction
  (\<open>generate_problem_answer\<close>); \<open>start_quiz\<close> of main.py subtracts them as drawn. With the
  draws 1, 9 and minus, which the Beginner range 1 to 9 allows, every one of its ten
  stored answers is -8.
\<close>

theorem start_quiz_negative_answer:
  "fst (DIFFICULTY_RANGES Beginner) \<le> 1 \<and> 9 \<le> snd (DIFFICULTY_RANGES Beginner) \<and>
   map answer (quiz_data (start_quiz Beginner (\<lambda>i. (1, 9, CHR ''-'')) MathsQuizApp_new)) =
     replicate 10 (- 8)"
  by (simp add: start_quiz_def display_problem_def MAX_QUESTIONS_def MAX_LIVES_def
      MathsQuizApp_new_def make_question_def MathsQuizApp_show_results_def comp_def
      map_replicate_const)


section \<open>The two-attempt rule (quiz.py and main.py)\<close>

lemma check_answer_cases:
  assumes "py_int input = Some u"
  shows "(current_answer q = Some u \<and> attempts_remaining q = 2 \<longrightarrow>
           check_answer input q =
             ((''Correct! (+10 points)'', True),
              q\<lparr>score := score q + 10, questions_attempted := questions_attempted q + 1\<rparr>))"
    and "(current_answer q = Some u \<and> attempts_remaining q = 1 \<longrightarrow>
           check_answer input q =
             ((''Correct! (+5 points)'', True),
              q\<lparr>score := score q + 5, questions_attempted := questions_attempted q + 1\<rparr>))"
    and "(current_answer q \<noteq> Some u \<and> attempts_remaining q = 2 \<longrightarrow>
           check_answer input q =
             ((''Wrong. One more attempt remaining.'', False), q\<lparr>attempts_remaining := 1\<rparr>))"
    and "(current_answer q \<noteq> Some u \<and> attempts_remaining q = 1 \<and> 1 < lives q \<longrightarrow>
           check_answer input q =
             ((''Wrong! The answer was '' @ answer_text (current_answer q) @ ''. You lost a life.'',
               True),
              q\<lparr>attempts_remaining := 0, lives := lives q - 1,
                questions_attempted := questions_attempted q + 1\<rparr>))"
    and "(current_answer q \<noteq> Some u \<and> attempts_remaining q = 1 \<and> lives q \<le> 1 \<longrightarrow>
           check_answer input q =
             ((''Wrong! The answer was '' @ answer_text (current_answer q) @ ''. You lost a life.'',
               True),
              show_results ''Game Over! Out of Lives.''
                (q\<lparr>attempts_remaining := 0, lives := lives q - 1,
                   questions_attempted := questions_attempted q + 1\<rparr>)))"
  using assms by (auto simp: check_answer_def Let_def py_str_def digit_char_def nat_digits.simps)

lemma show_results_resets:
  "lives (show_results m q) = MAX_LIVES \<and> questions_attempted (show_results m q) = 0 \<and>
   score (show_results m q) = score q"
  by (simp add: show_results_def Let_def)

lemma QuizPage_check_answer_cases:
  assumes "py_int input = Some u" and "question_pos a = Some i"
  shows "(answer (quiz_data a ! i) = u \<and> attempts (quiz_data a ! i) = 1 \<longrightarrow>
           QuizPage_check_answer input a =
             display_problem (a\<lparr>app_score := app_score a + 10,
                                boxes := boxes a @ [Correct_box 10],
                                question_index := question_index a + 1\<rparr>))"
    and "(answer (quiz_data a ! i) = u \<and> attempts (quiz_data a ! i) = 2 \<longrightarrow>
           QuizPage_check_answer input a =
             display_problem (a\<lparr>app_score := app_score a + 5,
                                boxes := boxes a @ [Correct_box 5],
                                question_index := question_index a + 1\<rparr>))"
    and "(answer (quiz_data a ! i) \<noteq> u \<and> attempts (quiz_data a ! i) = 1 \<longrightarrow>
           QuizPage_check_answer input a =
             a\<lparr>quiz_data := (quiz_data a)[i := (quiz_data a ! i)\<lparr>attempts := 2\<rparr>]\<rparr>)"
    and "(answer (quiz_data a ! i) \<noteq> u \<and> attempts (quiz_data a ! i) = 2 \<longrightarrow>
           QuizPage_check_answer input a =
             display_problem
               (a\<lparr>quiz_data := (quiz_data a)[i := (quiz_data a ! i)\<lparr>attempts := 3\<rparr>],
                  app_lives := app_lives a - 1,
                  boxes := boxes a @ [Incorrect_box (answer (quiz_data a ! i))],
                  question_index := question_index a + 1\<rparr>))"
  using assms
  by (auto simp: QuizPage_check_answer_def Let_def FIRST_ATTEMPT_POINTS_def SECOND_ATTEMPT_POINTS_def)

lemma display_problem_fields:
  "app_score (display_problem a) = app_score a \<and> app_lives (display_problem a) = app_lives a \<and>
   question_index (display_problem a) = question_index a \<and> boxes (display_problem a) = boxes a \<and>
   quiz_data (display_problem a) = quiz_data a"
  by (simp add: display_problem_def MathsQuizApp_show_results_def)

lemma question_pos_update:
  "question_pos (a\<lparr>quiz_data := (quiz_data a)[i := x]\<rparr>) = question_pos a"
  by (simp add: question_pos_def Let_def)

lemma question_pos_less: "question_pos a = Some i \<Longrightarrow> i < length (quiz_data a)"
  by (auto simp: question_pos_def Let_def split: if_splits)

text \<open>
  C3, as stated, fails in quiz.py when the second wrong answer takes the last life:
  \<open>check_answer\<close> calls \<open>show_results\<close>, which resets the lives to 5 and the questions
  attempted to 0 before \<open>check_answer\<close> returns. From one life and four questions
  attempted, two wrong answers leave five lives and no question attempted.
\<close>

theorem last_life_is_reset:
  "check_answer ''7'' last_life_quiz =
     ((''Wrong. One more attempt remaining.'', False), last_life_quiz\<lparr>attempts_remaining := 1\<rparr>) \<and>
   fst (check_answer ''8'' (last_life_quiz\<lparr>attempts_remaining := 1\<rparr>)) =
     (''Wrong! The answer was 12. You lost a life.'', True) \<and>
   lives last_life_quiz = 1 \<and>
   lives (snd (check_answer ''8'' (last_life_quiz\<lparr>attempts_remaining := 1\<rparr>))) = 5 \<and>
   questions_attempted last_life_quiz = 4 \<and>
   questions_attempted (snd (check_answer ''8'' (last_life_quiz\<lparr>attempts_remaining := 1\<rparr>))) = 0"
  by (simp add: last_life_quiz_def quiz_eval MAX_LIVES_def Let_def py_eval)

text \<open>
  C3, amended. With \<open>small\<close> scores and answers and \<open>max_questions\<close> at 10, an answer that
  parses and is right earns 10 points at the first attempt and 5 at the second, counts
  the question and reports it solved, in both programs.
  After two wrong answers that parse, the second one reports the right answer and the
  problem as solved, the question is counted and one life is taken: in main.py always,
  in quiz.py when more than one life was left. When it takes the last life in quiz.py,
  \<open>check_answer\<close> returns after \<open>show_results\<close> has shown the game-over box and reset the
  lives to \<open>MAX_LIVES\<close> and the questions attempted to 0.
\<close>

theorem two_attempt_scoring:
  assumes "py_int input = Some u" and "py_int input2 = Some u2" and "question_pos a = Some i"
    and "max_questions q = 10" and "small (score q)"
    and "\<forall>n. current_answer q = Some n \<longrightarrow> small n"
    and "small (app_score a)" and "small (answer (quiz_data a ! i))"
  shows
   "(current_answer q = Some u \<and> attempts_remaining q = 2 \<longrightarrow>
       check_answer input q =
         ((''Correct! (+10 points)'', True),
          q\<lparr>score := score q + 10, questions_attempted := questions_attempted q + 1\<rparr>)) \<and>
    (current_answer q = Some u \<and> attempts_remaining q = 1 \<longrightarrow>
       check_answer input q =
         ((''Correct! (+5 points)'', True),
          q\<lparr>score := score q + 5, questions_attempted := questions_attempted q + 1\<rparr>)) \<and>
    (current_answer q \<noteq> Some u \<and> current_answer q \<noteq> Some u2 \<and> attempts_remaining q = 2 \<and>
     1 < lives q \<longrightarrow>
       check_answer input q =
         ((''Wrong. One more attempt remaining.'', False), q\<lparr>attempts_remaining := 1\<rparr>) \<and>
       check_answer input2 (q\<lparr>attempts_remaining := 1\<rparr>) =
         ((''Wrong! The answer was '' @ answer_text (current_answer q) @ ''. You lost a life.'',
           True),
          q\<lparr>attempts_remaining := 0, lives := lives q - 1,
            questions_attempted := questions_attempted q + 1\<rparr>)) \<and>
    (current_answer q \<noteq> Some u \<and> current_answer q \<noteq> Some u2 \<and> attempts_remaining q = 2 \<and>
     lives q \<le> 1 \<longrightarrow>
       check_answer input q =
         ((''Wrong. One more attempt remaining.'', False), q\<lparr>attempts_remaining := 1\<rparr>) \<and>
       check_answer input2 (q\<lparr>attempts_remaining := 1\<rparr>) =
         ((''Wrong! The answer was '' @ answer_text (current_answer q) @ ''. You lost a life.'',
           True),
          q\<lparr>attempts_remaining := 0, lives := MAX_LIVES, questions_attempted := 0,
            results_shown :=
              results_shown q @ [(''Game Over! Out of Lives.'', score q, calculate_rank q)],
            top_frame := MainMenuFrame\<rparr>)) \<and>
    (answer (quiz_data a ! i) = u \<and> attempts (quiz_data a ! i) = 1 \<longrightarrow>
       QuizPage_check_answer input a =
         display_problem (a\<lparr>app_score := app_score a + 10,
                            boxes := boxes a @ [Correct_box 10],
                            question_index := question_index a + 1\<rparr>)) \<and>
    (answer (quiz_data a ! i) = u \<and> attempts (quiz_data a ! i) = 2 \<longrightarrow>
       QuizPage_check_answer input a =
         display_problem (a\<lparr>app_score := app_score a + 5,
                            boxes := boxes a @ [Correct_box 5],
                            question_index := question_index a + 1\<rparr>)) \<and>
    (answer (quiz_data a ! i) \<noteq> u \<and> answer (quiz_data a ! i) \<noteq> u2 \<and>
     attempts (quiz_data a ! i) = 1 \<longrightarrow>
       QuizPage_check_answer input a =
         a\<lparr>quiz_data := (quiz_data a)[i := (quiz_data a ! i)\<lparr>attempts := 2\<rparr>]\<rparr> \<and>
       QuizPage_check_answer input2 (QuizPage_check_answer input a) =
         display_problem
           (a\<lparr>quiz_data := (quiz_data a)[i := (quiz_data a ! i)\<lparr>attempts := 3\<rparr>],
              app_lives := app_lives a - 1,
              boxes := boxes a @ [Incorrect_box (answer (quiz_data a ! i))],
              question_index := question_index a + 1\<rparr>))"
proof -
  note q1 = check_answer_cases [OF assms(1), of q]
  have q2: "current_answer q \<noteq> Some u2 \<and> attempts_remaining q = 2 \<and> 1 < lives q \<longrightarrow>
       check_answer input2 (q\<lparr>attempts_remaining := 1\<rparr>) =
         ((''Wrong! The answer was '' @ answer_text (current_answer q) @ ''. You lost a life.'',
           True),
          q\<lparr>attempts_remaining := 0, lives := lives q - 1,
            questions_attempted := questions_attempted q + 1\<rparr>)"
    using check_answer_cases(4) [OF assms(2), of "q\<lparr>attempts_remaining := 1\<rparr>"] by simp
  have q3: "current_answer q \<noteq> Some u2 \<and> attempts_remaining q = 2 \<and> lives q \<le> 1 \<longrightarrow>
       check_answer input2 (q\<lparr>attempts_remaining := 1\<rparr>) =
         ((''Wrong! The answer was '' @ answer_text (current_answer q) @ ''. You lost a life.'',
           True),
          q\<lparr>attempts_remaining := 0, lives := MAX_LIVES, questions_attempted := 0,
            results_shown :=
              results_shown q @ [(''Game Over! Out of Lives.'', score q, calculate_rank q)],
            top_frame := MainMenuFrame\<rparr>)"
    using check_answer_cases(5) [OF assms(2), of "q\<lparr>attempts_remaining := 1\<rparr>"]
    by (simp add: show_results_def calculate_rank_def)
  note a1 = QuizPage_check_answer_cases [OF assms(1) assms(3)]
  let ?a1 = "a\<lparr>quiz_data := (quiz_data a)[i := (quiz_data a ! i)\<lparr>attempts := 2\<rparr>]\<rparr>"
  have pos: "question_pos ?a1 = Some i"
    using assms(3) by (simp add: question_pos_update)
  have lt: "i < length (quiz_data a)" using assms(3) by (rule question_pos_less)
  have a2: "answer (quiz_data a ! i) \<noteq> u2 \<longrightarrow>
       QuizPage_check_answer input2 ?a1 =
         display_problem
           (a\<lparr>quiz_data := (quiz_data a)[i := (quiz_data a ! i)\<lparr>attempts := 3\<rparr>],
              app_lives := app_lives a - 1,
              boxes := boxes a @ [Incorrect_box (answer (quiz_data a ! i))],
              question_index := question_index a + 1\<rparr>)"
    using QuizPage_check_answer_cases(4) [OF assms(2) pos] lt by simp
  from q1 q2 q3 a1 a2 show ?thesis by simp
qed

theorem two_attempt_scoring_witness:
  "py_int ''12'' = Some 12 \<and> py_int ''7'' = Some 7 \<and> py_int ''8'' = Some 8 \<and>
   question_pos started_app = Some 0 \<and>
   question_pos (QuizPage_check_answer ''7'' started_app) = Some 0 \<and>
   max_questions posed_quiz = 10 \<and> small (score posed_quiz) \<and>
   current_answer posed_quiz = Some 12 \<and> small 12 \<and>
   small (app_score started_app) \<and> small (answer (quiz_data started_app ! 0)) \<and>
   check_answer ''12'' posed_quiz =
     ((''Correct! (+10 points)'', True), posed_quiz\<lparr>score := 10, questions_attempted := 1\<rparr>) \<and>
   check_answer ''12'' (posed_quiz\<lparr>attempts_remaining := 1\<rparr>) =
     ((''Correct! (+5 points)'', True),
      posed_quiz\<lparr>attempts_remaining := 1, score := 5, questions_attempted := 1\<rparr>) \<and>
   check_answer ''7'' posed_quiz =
     ((''Wrong. One more attempt remaining.'', False), posed_quiz\<lparr>attempts_remaining := 1\<rparr>) \<and>
   check_answer ''8'' (posed_quiz\<lparr>attempts_remaining := 1\<rparr>) =
     ((''Wrong! The answer was 12. You lost a life.'', True),
      posed_quiz\<lparr>attempts_remaining := 0, lives := 4, questions_attempted := 1\<rparr>) \<and>
   lives (snd (check_answer ''8'' (last_life_quiz\<lparr>attempts_remaining := 1\<rparr>))) = 5 \<and>
   app_score (QuizPage_check_answer ''12'' started_app) = 10 \<and>
   app_score (QuizPage_check_answer ''12'' (QuizPage_check_answer ''7'' started_app)) = 5 \<and>
   app_lives (QuizPage_check_answer ''8'' (QuizPage_check_answer ''7'' started_app)) = 4 \<and>
   question_index (QuizPage_check_answer ''8'' (QuizPage_check_answer ''7'' started_app)) = 1"
proof -
  have h12: "py_int ''12'' = Some 12" and h7: "py_int ''7'' = Some 7"
    and h8: "py_int ''8'' = Some 8"
    by (simp_all add: py_eval)
  have p0: "question_pos started_app = Some 0"
    by (simp add: started_app_def app_eval)
  have p1: "question_pos (QuizPage_check_answer ''7'' started_app) = Some 0"
    by (simp add: started_app_def app_eval h7)
  have m: "max_questions posed_quiz = 10"
    "max_questions (posed_quiz\<lparr>attempts_remaining := 1\<rparr>) = 10"
    "max_questions last_life_quiz = 10"
    by (simp_all add: posed_quiz_def last_life_quiz_def MathQuizLogic_new_def)
  have s: "small (score posed_quiz)"
    "small (score (posed_quiz\<lparr>attempts_remaining := 1\<rparr>))"
    "small (score last_life_quiz)"
    by (simp_all add: posed_quiz_def last_life_quiz_def MathQuizLogic_new_def small_def)
  have c: "\<forall>n. current_answer posed_quiz = Some n \<longrightarrow> small n"
    "\<forall>n. current_answer (posed_quiz\<lparr>attempts_remaining := 1\<rparr>) = Some n \<longrightarrow> small n"
    "\<forall>n. current_answer last_life_quiz = Some n \<longrightarrow> small n"
    by (simp_all add: posed_quiz_def last_life_quiz_def MathQuizLogic_new_def small_def)
  have t0: "small (app_score started_app)"
    "small (answer (quiz_data started_app ! 0))"
    by (simp_all add: started_app_def app_eval small_def)
  have t1: "small (app_score (QuizPage_check_answer ''7'' started_app))"
    "small (answer (quiz_data (QuizPage_check_answer ''7'' started_app) ! 0))"
    by (simp_all add: started_app_def app_eval h7 small_def)
  show ?thesis
    using h12 h7 h8 p0 p1 m(1) s(1) c(1) t0
      two_attempt_scoring [OF h12 h12 p0 m(1) s(1) c(1) t0]
      two_attempt_scoring [OF h12 h12 p1 m(2) s(2) c(2) t1]
      two_attempt_scoring [OF h7 h8 p0 m(1) s(1) c(1) t0]
      two_attempt_scoring [OF h7 h8 p0 m(3) s(3) c(3) t0]
    by (simp add: posed_quiz_def last_life_quiz_def started_app_def quiz_eval app_eval py_eval
        small_def)
qed


section \<open>Failed saves (StudentReport.py)\<close>

text \<open>
  C4. Only the add handler undoes its change when the save fails. After a confirmed
  delete whose save fails the student is gone from the roster although the file still
  holds both students, and after an update whose save fails the roster holds the new
  mark; the roster after the failed operation is not the roster before it.
\<close>

theorem failed_delete_and_update_stay:
  "load_data two_students_file DataManager_new = (two_students, False) \<and>
   save_data True two_students Absent = (True, two_students, two_students_file) \<and>
   submit_inline_delete False True ''1001'' two_students two_students_file =
     (\<lparr>students = [bob], class_size = 1\<rparr>, two_students_file) \<and>
   submit_inline_update False ''1001'' [] ''20'' [] [] [] two_students two_students_file =
     (\<lparr>students = [Student ''1001'' ''Ann'' 20 10 10 50, bob], class_size = 2\<rparr>,
      two_students_file) \<and>
   students (fst (handle_submission False ''1003'' ''Cy'' 1 2 3 4 two_students two_students_file)) =
     students two_students"
  by (simp add: roster_eval student_eval py_eval)

text \<open>
  A mark that \<^verbatim>\<open>int()\<close> rejects stops \<open>load_data\<close> in the middle of the file: the students
  read so far stay in the roster and the class size stays at the number declared on the
  first line.
\<close>

lemma load_data_stops_at_bad_mark:
  "load_data (Text ''5\<newline>1001,Ann,10,10,10,50\<newline>1002,Bob,x,6,6,30\<newline>'') DataManager_new =
     (\<lparr>students = [ann], class_size = 5\<rparr>, True)"
  by (simp add: roster_eval student_eval py_eval)

text \<open>
  C10. \<open>save_data\<close> assigns the class size before it opens the file. An add whose save
  fails pops the student again but leaves the class size at three for a roster of two,
  and \<open>get_summary\<close> divides the sum of the percentages, 80, by three instead of two.
\<close>

theorem failed_add_leaves_class_size:
  "handle_submission False ''1003'' ''Cy'' 1 2 3 4 two_students two_students_file =
     (\<lparr>students = [ann, bob], class_size = 3\<rparr>, two_students_file) \<and>
   get_summary two_students = Some (2, 40) \<and>
   get_summary \<lparr>students = [ann, bob], class_size = 3\<rparr> = Some (3, 80 / 3)"
  by (simp add: roster_eval student_eval py_eval)


section \<open>The end of the quiz (main.py and quiz.py)\<close>

lemma step_Results: "current_page a \<noteq> QuizPage \<Longrightarrow> step e a = a"
  by (cases e) simp_all

lemma run_Results: "current_page a \<noteq> QuizPage \<Longrightarrow> run es a = a"
  by (induction es) (simp_all add: run_def step_Results)

lemma run_Cons: "run (e # es) a = run es (step e a)"
  by (simp add: run_def)

lemma display_problem_playing:
  "0 \<le> app_lives a \<Longrightarrow> 0 \<le> question_index a \<Longrightarrow> question_index a \<le> MAX_QUESTIONS \<Longrightarrow>
   current_page a = QuizPage \<Longrightarrow> playing (display_problem a)"
  by (auto simp: playing_def display_problem_def MathsQuizApp_show_results_def)

lemma display_problem_by_rule:
  "0 \<le> app_lives a \<Longrightarrow> question_index a \<le> MAX_QUESTIONS \<Longrightarrow>
   current_page a = QuizPage \<Longrightarrow> by_rule (display_problem a)"
  by (auto simp: by_rule_def display_problem_def MathsQuizApp_show_results_def)

lemma check_answer_playing:
  assumes "playing a" and "current_page a = QuizPage"
  shows "playing (QuizPage_check_answer entry a) \<and> by_rule (QuizPage_check_answer entry a)"
proof -
  from assms have b: "0 < app_lives a" "0 \<le> question_index a" "question_index a < MAX_QUESTIONS"
    by (simp_all add: playing_def)
  show ?thesis
    using assms(2) b
    by (auto simp: QuizPage_check_answer_def Let_def split: option.splits
        intro!: display_problem_playing display_problem_by_rule)
      (simp_all add: playing_def by_rule_def)
qed

lemma step_playing: "playing a \<Longrightarrow> playing (step e a)"
proof (cases e)
  case (Submit entry)
  assume "playing a"
  then show ?thesis using Submit check_answer_playing [of a entry] by simp
next
  case (Quit yes)
  assume "playing a"
  then show ?thesis using Quit
    by (auto simp: playing_def confirm_quit_def MathsQuizApp_show_results_def)
qed

lemma step_by_rule: "playing a \<Longrightarrow> by_rule a \<Longrightarrow> e \<noteq> Quit True \<Longrightarrow> by_rule (step e a)"
proof (cases e)
  case (Submit entry)
  assume "playing a" "by_rule a"
  then show ?thesis using Submit check_answer_playing [of a entry] by simp
next
  case (Quit yes)
  assume "playing a" "by_rule a" "e \<noteq> Quit True"
  then show ?thesis using Quit by (simp add: confirm_quit_def)
qed

lemma run_playing: "playing a \<Longrightarrow> playing (run es a)"
  by (induction es arbitrary: a) (simp_all add: run_def step_playing)

lemma run_by_rule:
  "playing a \<Longrightarrow> by_rule a \<Longrightarrow> Quit True \<notin> set es \<Longrightarrow> by_rule (run es a)"
proof (induction es arbitrary: a)
  case Nil
  then show ?case by (simp add: run_def)
next
  case (Cons e es)
  from Cons.prems have "e \<noteq> Quit True" "Quit True \<notin> set es" by auto
  with Cons.prems have "playing (step e a)" "by_rule (step e a)"
    by (simp_all add: step_playing step_by_rule)
  then show ?case using Cons.IH \<open>Quit True \<notin> set es\<close> by (simp add: run_Cons)
qed

lemma run_quit: "playing a \<Longrightarrow> Quit True \<in> set es \<Longrightarrow> current_page (run es a) = ResultsPage"
proof (induction es arbitrary: a)
  case Nil
  then show ?case by simp
next
  case (Cons e es)
  show ?case
  proof (cases "e = Quit True")
    case True
    have "current_page (step e a) = ResultsPage"
      using True Cons.prems(1)
      by (auto simp: playing_def confirm_quit_def MathsQuizApp_show_results_def)
    then show ?thesis by (simp add: run_Cons run_Results)
  next
    case False
    with Cons.prems have "Quit True \<in> set es" by auto
    then show ?thesis using Cons.IH [OF step_playing [OF Cons.prems(1)]] by (simp add: run_Cons)
  qed
qed

lemma start_quiz_playing:
  "playing (start_quiz level rnd a) \<and> by_rule (start_quiz level rnd a) \<and>
   current_page (start_quiz level rnd a) = QuizPage"
  by (simp add: start_quiz_def display_problem_def playing_def by_rule_def MAX_QUESTIONS_def
      MAX_LIVES_def)

text \<open>
  C6, as stated, fails in main.py: confirming the quit button shows the results page
  with all five lives and no question answered.
\<close>

theorem quit_finishes_early:
  "current_page (run [Quit True] started_app) = ResultsPage \<and>
   app_lives (run [Quit True] started_app) = 5 \<and>
   question_index (run [Quit True] started_app) = 0 \<and>
   question_index (run [Quit True] started_app) < MAX_QUESTIONS"
  by (simp add: started_app_def app_eval)

text \<open>
  C6, amended. In main.py, with the operands drawn from the range of the level, a
  confirmed quit always ends on the results page; a run from \<open>start_quiz\<close> without a
  confirmed quit is on the results page if and only if the lives are 0 or the question
  index is \<open>MAX_QUESTIONS\<close>. In quiz.py, with a \<open>small\<close> score, answer and operands,
  \<open>next_question\<close> shows the results if and only if the questions attempted have reached
  \<open>max_questions\<close>, and \<open>check_answer\<close> shows them if and only if a wrong answer at the
  last attempt takes the last life.
\<close>

theorem quiz_finishes:
  assumes "\<forall>i. valid_draw (DIFFICULTY_RANGES level) (rnd i)"
    and "small (score q)" and "\<forall>n. current_answer q = Some n \<longrightarrow> small n"
    and "small r1" and "small r2"
  shows
   "(Quit True \<notin> set es \<longrightarrow>
       (current_page (run es (start_quiz level rnd a)) = ResultsPage \<longleftrightarrow>
          app_lives (run es (start_quiz level rnd a)) = 0 \<or>
          question_index (run es (start_quiz level rnd a)) = MAX_QUESTIONS)) \<and>
    (Quit True \<in> set es \<longrightarrow> current_page (run es (start_quiz level rnd a)) = ResultsPage) \<and>
    (next_question r1 r2 operation q = Some q' \<longrightarrow>
       (results_shown q' \<noteq> results_shown q \<longleftrightarrow> max_questions q \<le> questions_attempted q)) \<and>
    (results_shown (snd (check_answer input q)) \<noteq> results_shown q \<longleftrightarrow>
       (\<exists>u. py_int input = Some u \<and> current_answer q \<noteq> Some u) \<and>
       attempts_remaining q = 1 \<and> lives q \<le> 1)"
proof -
  let ?s = "start_quiz level rnd a"
  have s: "playing ?s" "by_rule ?s" using start_quiz_playing by blast+
  have p: "playing (run es ?s)" using s(1) by (rule run_playing)
  have a: "Quit True \<notin> set es \<longrightarrow>
      (current_page (run es ?s) = ResultsPage \<longleftrightarrow>
         app_lives (run es ?s) = 0 \<or> question_index (run es ?s) = MAX_QUESTIONS)"
  proof
    assume "Quit True \<notin> set es"
    then have "by_rule (run es ?s)" using s by (simp add: run_by_rule)
    then show "current_page (run es ?s) = ResultsPage \<longleftrightarrow>
         app_lives (run es ?s) = 0 \<or> question_index (run es ?s) = MAX_QUESTIONS"
      using p by (auto simp: by_rule_def playing_def)
  qed
  have b: "Quit True \<in> set es \<longrightarrow> current_page (run es ?s) = ResultsPage"
    using run_quit [OF s(1)] by blast
  have c: "next_question r1 r2 operation q = Some q' \<longrightarrow>
      (results_shown q' \<noteq> results_shown q \<longleftrightarrow> max_questions q \<le> questions_attempted q)"
    by (auto simp: next_question_def generate_problem_def show_results_def Let_def
        split: option.splits if_splits prod.splits)
  have d: "results_shown (snd (check_answer input q)) \<noteq> results_shown q \<longleftrightarrow>
      (\<exists>u. py_int input = Some u \<and> current_answer q \<noteq> Some u) \<and>
      attempts_remaining q = 1 \<and> lives q \<le> 1"
    by (auto simp: check_answer_def show_results_def Let_def split: option.splits)
  from a b c d show ?thesis by blast
qed

theorem quiz_finishes_witness:
  "(\<forall>i. valid_draw (DIFFICULTY_RANGES Beginner) ((\<lambda>i. (5, 7, CHR ''+'')) i)) \<and>
   small (score (posed_quiz\<lparr>questions_attempted := 10\<rparr>)) \<and>
   current_answer (posed_quiz\<lparr>questions_attempted := 10\<rparr>) = Some 12 \<and> small 12 \<and>
   small 3 \<and> small 4 \<and>
   Quit True \<notin> set [Submit ''12'', Submit ''12'', Submit ''12'', Submit ''12'', Submit ''12'',
                      Submit ''12'', Submit ''12'', Submit ''12'', Submit ''12'', Submit ''12''] \<and>
   current_page (run [Submit ''12'', Submit ''12'', Submit ''12'', Submit ''12'', Submit ''12'',
                      Submit ''12'', Submit ''12'', Submit ''12'', Submit ''12'', Submit ''12'']
                   started_app) = ResultsPage \<and>
   question_index (run [Submit ''12'', Submit ''12'', Submit ''12'', Submit ''12'', Submit ''12'',
                      Submit ''12'', Submit ''12'', Submit ''12'', Submit ''12'', Submit ''12'']
                   started_app) = MAX_QUESTIONS \<and>
   Quit True \<in> set [Submit ''7'', Quit True] \<and>
   current_page (run [Submit ''7'', Quit True] started_app) = ResultsPage \<and>
   next_question 3 4 CHR ''+'' (posed_quiz\<lparr>questions_attempted := 10\<rparr>) =
     Some (show_results ''Quiz Completed Successfully!'' (posed_quiz\<lparr>questions_attempted := 10\<rparr>)) \<and>
   results_shown (show_results ''Quiz Completed Successfully!''
                    (posed_quiz\<lparr>questions_attempted := 10\<rparr>)) \<noteq>
     results_shown (posed_quiz\<lparr>questions_attempted := 10\<rparr>)"
proof -
  let ?ten = "[Submit ''12'', Submit ''12'', Submit ''12'', Submit ''12'', Submit ''12'',
               Submit ''12'', Submit ''12'', Submit ''12'', Submit ''12'', Submit ''12'']"
  have h12: "py_int ''12'' = Some 12" by (simp add: py_eval)
  have idx: "question_index (run ?ten started_app) = MAX_QUESTIONS"
    by (simp add: started_app_def app_eval h12)
  have nq: "next_question 3 4 CHR ''+'' (posed_quiz\<lparr>questions_attempted := 10\<rparr>) =
     Some (show_results ''Quiz Completed Successfully!'' (posed_quiz\<lparr>questions_attempted := 10\<rparr>))"
    by (simp add: next_question_def posed_quiz_def MathQuizLogic_new_def)
  have v: "\<forall>i. valid_draw (DIFFICULTY_RANGES Beginner) ((\<lambda>i. (5, 7, CHR ''+'')) i)"
    by (simp add: valid_draw_def)
  have s: "small (score (posed_quiz\<lparr>questions_attempted := 10\<rparr>))"
    by (simp add: posed_quiz_def MathQuizLogic_new_def small_def)
  have c: "\<forall>n. current_answer (posed_quiz\<lparr>questions_attempted := 10\<rparr>) = Some n \<longrightarrow> small n"
    by (simp add: posed_quiz_def MathQuizLogic_new_def small_def)
  have r: "small 3" "small 4" by (simp_all add: small_def)
  show ?thesis
    using idx nq v s c r
      quiz_finishes [OF v s c r, of ?ten MathsQuizApp_new "CHR ''+''"
        "show_results ''Quiz Completed Successfully!'' (posed_quiz\<lparr>questions_attempted := 10\<rparr>)"]
      quiz_finishes [OF v s c r, of "[Submit ''7'', Quit True]" MathsQuizApp_new]
    by (simp add: started_app_def posed_quiz_def MathQuizLogic_new_def small_def)
qed


section \<open>The round trip of the roster file (StudentReport.py)\<close>

lemma digit_char_facts:
  assumes "k < 10"
  shows "digit_val (digit_char k) = k" and "isdecimal (digit_char k)"
    and "digit_char k \<in> set ''0123456789''"
proof -
  from assms have "k \<in> {0, 1, 2, 3, 4, 5, 6, 7, 8, 9}" by auto
  then show "digit_val (digit_char k) = k" and "isdecimal (digit_char k)"
    and "digit_char k \<in> set ''0123456789''"
    by (auto simp: digit_val_def digit_char_def isdecimal_def)
qed

lemma nat_digits_chars: "set (nat_digits n) \<subseteq> set ''0123456789''"
proof (induction n rule: nat_digits.induct)
  case (1 n)
  show ?case
  proof (cases "n < 10")
    case True
    then show ?thesis using digit_char_facts(3) [of n] by (subst nat_digits.simps) simp
  next
    case False
    have "n mod 10 < 10" by simp
    then have "digit_char (n mod 10) \<in> set ''0123456789''" by (rule digit_char_facts(3))
    with 1 False show ?thesis by (subst nat_digits.simps) simp
  qed
qed

lemma nat_digits_nonempty: "nat_digits n \<noteq> []"
  by (subst nat_digits.simps) simp

lemma length_nat_digits: "0 < k \<Longrightarrow> n < 10 ^ k \<Longrightarrow> length (nat_digits n) \<le> k"
proof (induction n arbitrary: k rule: nat_digits.induct)
  case (1 n)
  show ?case
  proof (cases "n < 10")
    case True
    then show ?thesis using 1(2) by (subst nat_digits.simps) simp
  next
    case False
    obtain j where k: "k = Suc j" using 1(2) by (cases k) auto
    have "j \<noteq> 0" using False 1(3) k by (cases j) auto
    moreover have "n div 10 < 10 ^ j" using 1(3) k by (simp add: less_mult_imp_div_less)
    ultimately have "length (nat_digits (n div 10)) \<le> j" using 1(1) [OF False, of j] by simp
    then show ?thesis using False k by (subst nat_digits.simps) simp
  qed
qed

lemma digit_set_facts:
  assumes "c \<in> set ''0123456789''"
  shows "isdecimal c" and "\<not> isspace c" and "c \<noteq> CHR '',''" and "c \<noteq> CHR 0x0A"
    and "c \<noteq> CHR ''_''" and "c \<noteq> CHR ''-''" and "c \<noteq> CHR ''+''" and "\<not> int_space c"
    and "c \<noteq> CHR 0x0D"
  using assms by (auto simp: isdecimal_def isspace_def int_space_def)

lemma filter_nat_digits: "filter isdecimal (nat_digits n) = nat_digits n"
proof -
  have "isdecimal c" if "c \<in> set (nat_digits n)" for c
  proof -
    from that nat_digits_chars have "c \<in> set ''0123456789''" by blast
    then show ?thesis by (rule digit_set_facts(1))
  qed
  then show ?thesis by (simp add: filter_id_conv)
qed

lemma parse_digits_all_digits:
  assumes "ds \<noteq> []" and "set ds \<subseteq> set ''0123456789''"
  shows "parse_digits acc ds = Some (foldl (\<lambda>a c. a * 10 + digit_val c) acc ds)"
  using assms
proof (induction acc ds rule: parse_digits.induct)
  case (1 acc)
  then show ?case by simp
next
  case (2 acc c)
  then show ?case using digit_set_facts(1) [of c] by simp
next
  case (3 acc c d cs)
  have c: "isdecimal c" using 3(4) digit_set_facts(1) [of c] by simp
  have d: "d \<noteq> CHR ''_''" using 3(4) digit_set_facts(5) [of d] by auto
  have "parse_digits (acc * 10 + digit_val c) (d # cs) =
          Some (foldl (\<lambda>a c. a * 10 + digit_val c) (acc * 10 + digit_val c) (d # cs))"
    using 3(2) [OF _ d] c 3(4) by simp
  then show ?case using c d by simp
qed

lemma foldl_nat_digits: "foldl (\<lambda>a c. a * 10 + digit_val c) 0 (nat_digits n) = n"
proof (induction n rule: nat_digits.induct)
  case (1 n)
  show ?case
  proof (cases "n < 10")
    case True
    then show ?thesis using digit_char_facts(1) [of n] by (subst nat_digits.simps) simp
  next
    case False
    have "digit_val (digit_char (n mod 10)) = n mod 10"
      by (rule digit_char_facts(1)) simp
    with 1 False show ?thesis by (subst nat_digits.simps) simp
  qed
qed

lemma parse_nat_digits: "parse_digits 0 (nat_digits n) = Some n"
  using parse_digits_all_digits [OF nat_digits_nonempty nat_digits_chars, of 0 n]
  by (simp add: foldl_nat_digits)

lemma parse_numeral_nat_digits:
  assumes "n < 10 ^ MAX_STR_DIGITS"
  shows "parse_numeral (nat_digits n) = Some n"
proof -
  have "0 < MAX_STR_DIGITS" by (simp add: MAX_STR_DIGITS_def)
  then have "length (nat_digits n) \<le> MAX_STR_DIGITS" using assms by (rule length_nat_digits)
  then show ?thesis by (simp add: parse_numeral_def filter_nat_digits parse_nat_digits)
qed

lemma dropWhile_ends:
  assumes "s \<noteq> []" and "\<not> P (hd s)" and "\<not> P (last s)"
  shows "rev (dropWhile P (rev (dropWhile P s))) = s"
proof -
  have 1: "dropWhile P s = s" using assms by (simp add: dropWhile_eq_self_iff)
  have "rev s \<noteq> []" and "\<not> P (hd (rev s))" using assms by (simp_all add: hd_rev)
  then have 2: "dropWhile P (rev s) = rev s" by (simp add: dropWhile_eq_self_iff)
  show ?thesis by (simp add: 1 2)
qed

lemma strip_line:
  assumes "s \<noteq> []" and "\<not> isspace (hd s)" and "\<not> isspace (last s)"
  shows "strip (s @ [CHR 0x0A]) = s"
proof -
  have 1: "dropWhile isspace (s @ [CHR 0x0A]) = s @ [CHR 0x0A]"
    using assms by (simp add: dropWhile_eq_self_iff)
  have nl: "isspace (CHR 0x0A)" by (simp add: isspace_def)
  have "rev s \<noteq> []" and "\<not> isspace (hd (rev s))" using assms by (simp_all add: hd_rev)
  then have 2: "dropWhile isspace (rev s) = rev s" by (simp add: dropWhile_eq_self_iff)
  show ?thesis by (simp add: strip_def 1 2 nl)
qed

lemma py_str_chars: "c \<in> set (py_str n) \<Longrightarrow> c = CHR ''-'' \<or> c \<in> set ''0123456789''"
proof (cases "n < 0")
  case True
  assume "c \<in> set (py_str n)"
  with True have "c = CHR ''-'' \<or> c \<in> set (nat_digits (nat (- n)))"
    by (simp add: py_str_def)
  then show ?thesis using nat_digits_chars [of "nat (- n)"] by blast
next
  case False
  assume "c \<in> set (py_str n)"
  with False have "c \<in> set (nat_digits (nat n))" by (simp add: py_str_def)
  then show ?thesis using nat_digits_chars [of "nat n"] by blast
qed

lemma py_str_nonempty: "py_str n \<noteq> []"
  by (simp add: py_str_def nat_digits_nonempty)

lemma py_str_free:
  "CHR '','' \<notin> set (py_str n)" "CHR 0x0A \<notin> set (py_str n)" "CHR 0x0D \<notin> set (py_str n)"
proof -
  show "CHR '','' \<notin> set (py_str n)"
    using py_str_chars [of "CHR '',''" n] by auto
  show "CHR 0x0A \<notin> set (py_str n)"
    using py_str_chars [of "CHR 0x0A" n] by auto
  show "CHR 0x0D \<notin> set (py_str n)"
    using py_str_chars [of "CHR 0x0D" n] by auto
qed

lemma py_str_ends:
  "\<not> isspace (hd (py_str n))" "\<not> isspace (last (py_str n))"
  "\<not> int_space (hd (py_str n))" "\<not> int_space (last (py_str n))"
proof -
  have a: "\<not> isspace c \<and> \<not> int_space c" if "c \<in> set (py_str n)" for c
    using py_str_chars [OF that] by (auto simp: isspace_def int_space_def)
  show "\<not> isspace (hd (py_str n))" using a py_str_nonempty by simp
  show "\<not> isspace (last (py_str n))" using a py_str_nonempty by simp
  show "\<not> int_space (hd (py_str n))" using a py_str_nonempty by simp
  show "\<not> int_space (last (py_str n))" using a py_str_nonempty by simp
qed

lemma nat_abs_less_power:
  fixes n :: int
  assumes "\<bar>n\<bar> < 10 ^ k"
  shows "nat \<bar>n\<bar> < 10 ^ k"
proof -
  have "int (nat \<bar>n\<bar>) < int (10 ^ k)" using assms by simp
  then show ?thesis by (simp only: of_nat_less_iff)
qed

lemma py_int_py_str:
  assumes "str_ok n"
  shows "py_int (py_str n) = Some n"
proof -
  have s: "rev (dropWhile int_space (rev (dropWhile int_space (py_str n)))) = py_str n"
    by (rule dropWhile_ends) (simp_all add: py_str_nonempty py_str_ends)
  have "\<bar>n\<bar> < 10 ^ MAX_STR_DIGITS" using assms by (simp only: str_ok_def)
  then have b: "nat \<bar>n\<bar> < 10 ^ MAX_STR_DIGITS" by (rule nat_abs_less_power)
  have p: "parse_numeral (nat_digits (nat \<bar>n\<bar>)) = Some (nat \<bar>n\<bar>)"
    using b by (rule parse_numeral_nat_digits)
  show ?thesis
  proof (cases "n < 0")
    case True
    then have "nat \<bar>n\<bar> = nat (- n)" by simp
    with p have "parse_numeral (nat_digits (nat (- n))) = Some (nat (- n))" by simp
    then show ?thesis using True by (simp add: py_int_def s) (simp add: py_str_def)
  next
    case False
    then have "nat \<bar>n\<bar> = nat n" by simp
    with p have q: "parse_numeral (nat_digits (nat n)) = Some (nat n)" by simp
    obtain c cs where cs: "nat_digits (nat n) = c # cs"
      using nat_digits_nonempty [of "nat n"] by (cases "nat_digits (nat n)") auto
    have "c \<in> set ''0123456789''" using nat_digits_chars [of "nat n"] cs by auto
    then have c: "c \<noteq> CHR ''-''" "c \<noteq> CHR ''+''" by (auto dest: digit_set_facts)
    have "parse_numeral (c # cs) = Some (nat n)" using q cs by simp
    then show ?thesis using False cs s c by (simp add: py_int_def py_str_def)
  qed
qed

lemma split_field:
  "sep \<notin> set w \<Longrightarrow> split sep (w @ sep # rest) = w # split sep rest"
  by (induction w) auto

lemma split_last: "sep \<notin> set w \<Longrightarrow> split sep w = [w]"
  by (induction w) auto

lemma universal_newlines_id: "CHR 0x0D \<notin> set t \<Longrightarrow> universal_newlines t = t"
  by (induction t rule: universal_newlines.induct) auto

lemma readlines_line:
  "CHR 0x0A \<notin> set l \<Longrightarrow> readlines (l @ CHR 0x0A # rest) = (l @ [CHR 0x0A]) # readlines rest"
  by (induction l) auto

lemma readlines_concat:
  "\<forall>l \<in> set ls. CHR 0x0A \<notin> set l \<Longrightarrow>
   readlines (concat (map (\<lambda>l. l @ [CHR 0x0A]) ls)) = map (\<lambda>l. l @ [CHR 0x0A]) ls"
  by (induction ls) (simp_all add: readlines_line)

lemma record_line_strip:
  assumes "canonical_row r"
  shows "strip (record_line r @ [CHR 0x0A]) = record_line r"
proof -
  obtain cd nm a b c e where r: "r = (cd, nm, a, b, c, e)" by (cases r) auto
  have comma: "\<not> isspace (CHR '','')" by (simp add: isspace_def)
  have h: "\<not> isspace (hd (record_line r))"
    using assms comma by (cases cd) (simp_all add: r record_line_def canonical_row_def)
  have "last (record_line r) = last (py_str e)"
    using py_str_nonempty [of e] by (simp add: r record_line_def)
  then have t: "\<not> isspace (last (record_line r))" using py_str_ends(2) [of e] by simp
  have ne: "record_line r \<noteq> []" by (simp add: r record_line_def)
  show ?thesis using ne h t by (rule strip_line)
qed

lemma record_line_split:
  assumes "canonical_row r" and "r = (cd, nm, a, b, c, e)"
  shows "split CHR '','' (record_line r) = [cd, nm, py_str a, py_str b, py_str c, py_str e]"
proof -
  have f: "CHR '','' \<notin> set cd" "CHR '','' \<notin> set nm"
    using assms by (simp_all add: canonical_row_def)
  have "split CHR '','' (record_line r) =
          cd # split CHR '','' (nm @ CHR '','' # py_str a @ CHR '','' # py_str b @ CHR '','' #
                                 py_str c @ CHR '','' # py_str e)"
    using split_field [OF f(1)] by (simp add: assms(2) record_line_def)
  also have "\<dots> = cd # nm # split CHR '','' (py_str a @ CHR '','' # py_str b @ CHR '','' #
                                 py_str c @ CHR '','' # py_str e)"
    using split_field [OF f(2)] by simp
  also have "\<dots> = cd # nm # py_str a # split CHR '','' (py_str b @ CHR '','' #
                                 py_str c @ CHR '','' # py_str e)"
    using split_field [OF py_str_free(1) [of a]] by simp
  also have "\<dots> = cd # nm # py_str a # py_str b # split CHR '','' (py_str c @ CHR '','' # py_str e)"
    using split_field [OF py_str_free(1) [of b]] by simp
  also have "\<dots> = cd # nm # py_str a # py_str b # py_str c # split CHR '','' (py_str e)"
    using split_field [OF py_str_free(1) [of c]] by simp
  also have "\<dots> = [cd, nm, py_str a, py_str b, py_str c, py_str e]"
    using split_last [OF py_str_free(1) [of e]] by simp
  finally show ?thesis .
qed

lemma record_line_no_break:
  assumes "canonical_row r"
  shows "CHR 0x0A \<notin> set (record_line r)" and "CHR 0x0D \<notin> set (record_line r)"
proof -
  obtain cd nm a b c e where r: "r = (cd, nm, a, b, c, e)" by (cases r) auto
  show "CHR 0x0A \<notin> set (record_line r)"
    using assms py_str_free(2) [of a] py_str_free(2) [of b] py_str_free(2) [of c]
      py_str_free(2) [of e]
    by (simp add: r record_line_def canonical_row_def)
  show "CHR 0x0D \<notin> set (record_line r)"
    using assms py_str_free(3) [of a] py_str_free(3) [of b] py_str_free(3) [of c]
      py_str_free(3) [of e]
    by (simp add: r record_line_def canonical_row_def)
qed

lemma load_line_row:
  assumes "canonical_row r"
  shows "load_lines ((record_line r @ [CHR 0x0A]) # rest) acc =
           load_lines rest (acc @ [student_of_row r])"
proof -
  obtain cd nm a b c e where r: "r = (cd, nm, a, b, c, e)" by (cases r) auto
  have s: "split CHR '','' (strip (record_line r @ [CHR 0x0A])) =
             [cd, nm, py_str a, py_str b, py_str c, py_str e]"
    using record_line_strip [OF assms] record_line_split [OF assms r] by simp
  have ok: "str_ok a" "str_ok b" "str_ok c" "str_ok e"
    "\<not> percentage_overflows (a + b + c + e)"
    using assms by (simp_all add: r canonical_row_def)
  have "Student_of_strings cd nm (py_str a) (py_str b) (py_str c) (py_str e) =
          Some (student_of_row r)"
    using ok by (simp add: Student_of_strings_def py_int_py_str student_of_row_def r)
  then show ?thesis using s by simp
qed

lemma load_lines_rows:
  "list_all canonical_row rows \<Longrightarrow>
   load_lines (map (\<lambda>r. record_line r @ [CHR 0x0A]) rows) acc =
     (acc @ map student_of_row rows, True)"
proof (induction rows arbitrary: acc)
  case Nil
  then show ?case by simp
next
  case (Cons r rows)
  then have "canonical_row r" and "list_all canonical_row rows" by simp_all
  then show ?case
    using Cons.IH [of "acc @ [student_of_row r]"]
    by (simp add: load_line_row del: load_lines.simps)
qed

lemma to_file_format_row: "to_file_format (student_of_row r) = record_line r"
  by (cases r)
    (simp add: to_file_format_def student_of_row_def record_line_def Student_def
      recalculate_derived_data_def Let_def)

lemma row_of_student_of_row: "row_of_student (student_of_row r) = r"
  by (cases r)
    (simp add: row_of_student_def student_of_row_def Student_def recalculate_derived_data_def
      Let_def)

lemma printable_row: "canonical_row r \<Longrightarrow> printable (student_of_row r)"
  by (cases r)
    (simp add: printable_def canonical_row_def student_of_row_def Student_def
      recalculate_derived_data_def Let_def)

text \<open>
  C9, as stated, fails: a record whose mark is written \<open>07\<close> is valid (six fields, every
  mark an integer for \<^verbatim>\<open>int()\<close>), and it is saved back as \<open>7\<close>, so the record line is not
  reproduced byte for byte.
\<close>

theorem round_trip_rewrites_scores:
  "save_data True
     (fst (load_data (Text ''1\<newline>0001,Bob,07,8,9,50\<newline>'') DataManager_new))
     (Text ''1\<newline>0001,Bob,07,8,9,50\<newline>'') =
     (True, \<lparr>students = [Student ''0001'' ''Bob'' 7 8 9 50], class_size = 1\<rparr>,
      Text ''1\<newline>0001,Bob,7,8,9,50\<newline>'') \<and>
   readlines ''1\<newline>0001,Bob,7,8,9,50\<newline>'' ! 1 \<noteq>
   readlines ''1\<newline>0001,Bob,07,8,9,50\<newline>'' ! 1"
  by (simp add: roster_eval student_eval py_eval)

text \<open>
  C9, amended. Take a roster file whose first line holds neither newline nor carriage
  return and parses as an integer, and whose record lines each end in a newline and are
  the lines of canonical rows: six comma-separated fields, code and name without comma,
  newline or carriage return, no white space at the beginning of the line, the four
  marks in plain decimal notation (as \<^verbatim>\<open>str()\<close> prints them) with at most 4300 digits
  each and a total that the division by 160 does not overflow. Loading it raises no
  error and gives the students of the rows, with the class size their number, and
  saving this roster succeeds and writes the same record lines byte for byte, after a
  first line that holds the number of records.
\<close>

theorem load_save_round_trip:
  assumes "list_all canonical_row rows"
    and "CHR 0x0A \<notin> set header" and "CHR 0x0D \<notin> set header"
    and "py_int (strip (header @ [CHR 0x0A])) = Some n"
  shows "\<exists>dm'. load_data
                 (Text (header @ [CHR 0x0A] @
                        concat (map (\<lambda>r. record_line r @ [CHR 0x0A]) rows))) dm =
                 (dm', False) \<and>
               map row_of_student (students dm') = rows \<and>
               class_size dm' = int (length rows) \<and>
               fst (save_data True dm' d) = True \<and>
               snd (snd (save_data True dm' d)) =
                 Text (py_str (int (length rows)) @ [CHR 0x0A] @
                       concat (map (\<lambda>r. record_line r @ [CHR 0x0A]) rows))"
proof -
  let ?recs = "map (\<lambda>r. record_line r @ [CHR 0x0A]) rows"
  let ?dm = "dm\<lparr>students := map student_of_row rows, class_size := int (length rows)\<rparr>"
  have nl: "\<forall>l \<in> set (map record_line rows). CHR 0x0A \<notin> set l"
    using assms(1) by (auto simp: list_all_iff record_line_no_break)
  have "readlines (concat (map (\<lambda>l. l @ [CHR 0x0A]) (map record_line rows))) =
          map (\<lambda>l. l @ [CHR 0x0A]) (map record_line rows)"
    using nl by (rule readlines_concat)
  then have rl: "readlines (concat ?recs) = ?recs" by (simp add: comp_def)
  have lines: "readlines (header @ [CHR 0x0A] @ concat ?recs) = (header @ [CHR 0x0A]) # ?recs"
    using readlines_line [OF assms(2), of "concat ?recs"] rl by simp
  have "CHR 0x0D \<notin> set (header @ [CHR 0x0A] @ concat ?recs)"
    using assms(1,3) by (auto simp: list_all_iff record_line_no_break)
  then have "universal_newlines (header @ [CHR 0x0A] @ concat ?recs) =
               header @ [CHR 0x0A] @ concat ?recs"
    by (rule universal_newlines_id)
  with lines have rd: "readlines (universal_newlines (header @ [CHR 0x0A] @ concat ?recs)) =
                   (header @ [CHR 0x0A]) # ?recs"
    by (simp only:)
  have ld: "load_data (Text (header @ [CHR 0x0A] @ concat ?recs)) dm = (?dm, False)"
    unfolding load_data_def Let_def disk.case rd
    using assms(4) load_lines_rows [OF assms(1), of "[]"] by simp
  have rows: "map row_of_student (students ?dm) = rows"
    by (simp add: comp_def row_of_student_of_row)
  have out: "(\<lambda>s. to_file_format s @ [CHR 0x0A]) \<circ> student_of_row =
          (\<lambda>r. record_line r @ [CHR 0x0A])"
    by (rule ext) (simp add: to_file_format_row)
  have pr: "list_all printable (map student_of_row rows)"
    using assms(1) by (auto simp: list_all_iff printable_row)
  have sv: "save_data True ?dm d =
          (True, ?dm, Text (py_str (int (length rows)) @ [CHR 0x0A] @ concat ?recs))"
    using pr by (simp add: save_data_def output_lines_def Let_def out)
  show ?thesis
    using ld rows sv by simp
qed

theorem load_save_round_trip_witness:
  "list_all canonical_row [(''1001'', ''Ann'', 10, 10, 10, 50), (''1002'', ''Bob'', 6, 6, 6, 30)] \<and>
   CHR 0x0A \<notin> set ''7'' \<and> CHR 0x0D \<notin> set ''7'' \<and>
   py_int (strip (''7'' @ [CHR 0x0A])) = Some 7 \<and>
   load_data (Text ''7\<newline>1001,Ann,10,10,10,50\<newline>1002,Bob,6,6,6,30\<newline>'') DataManager_new =
     (two_students, False) \<and>
   fst (save_data True two_students Absent) = True \<and>
   snd (snd (save_data True two_students Absent)) =
     Text ''2\<newline>1001,Ann,10,10,10,50\<newline>1002,Bob,6,6,6,30\<newline>''"
proof -
  let ?rows = "[(''1001'', ''Ann'', 10, 10, 10, 50), (''1002'', ''Bob'', 6, 6, 6, 30)]"
  have h1: "list_all canonical_row ?rows"
    by (simp add: canonical_row_def) (simp add: isspace_def range_eval TOTAL_MAX_MARKS_def)
  have h2: "CHR 0x0A \<notin> set ''7''" and h3: "CHR 0x0D \<notin> set ''7''" by simp_all
  have h4: "py_int (strip (''7'' @ [CHR 0x0A])) = Some 7" by (simp add: py_eval)
  have l: "load_data (Text ''7\<newline>1001,Ann,10,10,10,50\<newline>1002,Bob,6,6,6,30\<newline>'') DataManager_new =
     (two_students, False)"
    by (simp add: roster_eval student_eval py_eval)
  have r1: "record_line (''1001'', ''Ann'', 10, 10, 10, 50) = ''1001,Ann,10,10,10,50''"
    and r2: "record_line (''1002'', ''Bob'', 6, 6, 6, 30) = ''1002,Bob,6,6,6,30''"
    and r3: "py_str 2 = ''2''"
    by (simp_all add: record_line_def py_str_def digit_char_def nat_digits.simps)
  have t: "''7'' @ [CHR 0x0A] @ concat (map (\<lambda>r. record_line r @ [CHR 0x0A]) ?rows) =
             ''7\<newline>1001,Ann,10,10,10,50\<newline>1002,Bob,6,6,6,30\<newline>''"
    by (simp add: r1 r2)
  have u: "py_str (int (length ?rows)) @ [CHR 0x0A] @
             concat (map (\<lambda>r. record_line r @ [CHR 0x0A]) ?rows) =
             ''2\<newline>1001,Ann,10,10,10,50\<newline>1002,Bob,6,6,6,30\<newline>''"
    by (simp add: r1 r2 r3)
  show ?thesis
  proof (rule exE [OF load_save_round_trip [OF h1 h2 h3 h4, of DataManager_new Absent]])
    fix dm'
    assume all:
      "load_data (Text (''7'' @ [CHR 0x0A] @
          concat (map (\<lambda>r. record_line r @ [CHR 0x0A]) ?rows))) DataManager_new = (dm', False) \<and>
       map row_of_student (students dm') = ?rows \<and>
       class_size dm' = int (length ?rows) \<and>
       fst (save_data True dm' Absent) = True \<and>
       snd (snd (save_data True dm' Absent)) =
         Text (py_str (int (length ?rows)) @ [CHR 0x0A] @
               concat (map (\<lambda>r. record_line r @ [CHR 0x0A]) ?rows))"
    note a = all [THEN conjunct1]
    note b = all [THEN conjunct2, THEN conjunct2, THEN conjunct2, THEN conjunct1]
    note c = all [THEN conjunct2, THEN conjunct2, THEN conjunct2, THEN conjunct2]
    from a l have d: "dm' = two_students" by (simp only: t prod.inject)
    from b c have "fst (save_data True two_students Absent) = True"
      and "snd (snd (save_data True two_students Absent)) =
             Text ''2\<newline>1001,Ann,10,10,10,50\<newline>1002,Bob,6,6,6,30\<newline>''"
      by (simp_all only: d u)
    with h1 h2 h3 h4 l show ?thesis by (simp only: simp_thms)
  qed
qed

end
